theory Spec2Isabelle
  imports Complex_Main "HOL-Library.Product_Lexorder"
begin

section \<open>The leaderboard store (utils/scoreboard.py)\<close>

text \<open>
  A \<open>PlayerScore\<close> is the typed dictionary of the source. The store is the dictionary
  \<open>self.scores\<close> from game title to entry list. The file \<open>scores.json\<close> is part of the
  state: it is missing, cannot be opened, does not decode as JSON, or holds a document.
  Whether the file can be opened for writing is an input of the environment.
\<close>

record PlayerScore =
  name :: string
  score :: int
  level :: int
  timestamp :: string
  game :: string

type_synonym store = "string \<rightharpoonup> PlayerScore list"

datatype stored_file = Missing | Unreadable | Undecodable | Document store

datatype py_error =
  OSError | JSONDecodeError | IndexError | KeyError | ZeroDivisionError | OverflowError | TclError

record ScoreboardManager =
  scores :: store
  scores_json :: stored_file
  writable :: bool

text \<open>The three titles that \<open>__init__\<close> installs, each with an empty list.\<close>

definition initial_scores :: store where
  "initial_scores =
     [''Memory Match'' \<mapsto> [], ''Number Rush'' \<mapsto> [], ''Color Blast'' \<mapsto> []]"

text \<open>
  The body of the \<open>try\<close> block of \<open>load_scores\<close>: \<open>Path.exists\<close>, \<open>open\<close> and
  \<open>json.load\<close>. \<open>Inr None\<close> is the path that reads nothing (no file).
\<close>

definition read_scores_file :: "stored_file \<Rightarrow> py_error + store option" where
  "read_scores_file f =
     (case f of
        Missing \<Rightarrow> Inr None
      | Unreadable \<Rightarrow> Inl OSError
      | Undecodable \<Rightarrow> Inl JSONDecodeError
      | Document d \<Rightarrow> Inr (Some d))"

text \<open>\<open>load_scores\<close>: the \<open>except Exception\<close> clause only prints, so the scores stay.\<close>

definition load_scores :: "ScoreboardManager \<Rightarrow> py_error + ScoreboardManager" where
  "load_scores m =
     (case read_scores_file (scores_json m) of
        Inl e \<Rightarrow> Inr m
      | Inr None \<Rightarrow> Inr m
      | Inr (Some d) \<Rightarrow> Inr (m\<lparr>scores := d\<rparr>))"

definition ScoreboardManager_init :: "stored_file \<Rightarrow> bool \<Rightarrow> py_error + ScoreboardManager" where
  "ScoreboardManager_init f w =
     load_scores \<lparr>scores = initial_scores, scores_json = f, writable = w\<rparr>"

text \<open>
  \<open>save_scores\<close>: the whole store replaces the file; when the file cannot be opened
  the exception is caught and the file stays as it was.
\<close>

definition save_scores :: "ScoreboardManager \<Rightarrow> ScoreboardManager" where
  "save_scores m = (if writable m then m\<lparr>scores_json := Document (scores m)\<rparr> else m)"

text \<open>
  \<open>list.sort(key=..., reverse=True)\<close> is stable: entries with equal keys keep their
  order. That is the stable ascending sort of the reversed list, reversed again.
\<close>

definition sort_key_reverse :: "('a \<Rightarrow> 'k::linorder) \<Rightarrow> 'a list \<Rightarrow> 'a list" where
  "sort_key_reverse k xs = rev (sort_key k (rev xs))"

text \<open>The slice \<open>xs[:n]\<close> of Python, for any integer \<open>n\<close>.\<close>

definition slice_to :: "'a list \<Rightarrow> int \<Rightarrow> 'a list" where
  "slice_to xs n =
     (if n < 0 then take (nat (int (length xs) + n)) xs else take (nat n) xs)"

text \<open>\<open>add_score\<close>; the last argument is the text \<open>datetime.now()\<close> formats to.\<close>

definition add_score ::
  "ScoreboardManager \<Rightarrow> string \<Rightarrow> string \<Rightarrow> int \<Rightarrow> int \<Rightarrow> string \<Rightarrow> bool \<times> ScoreboardManager" where
  "add_score m g player_name sc lv now =
     (case scores m g of
        None \<Rightarrow> (False, m)
      | Some entries \<Rightarrow>
          (let new_score = \<lparr>name = player_name, score = sc, level = lv,
                            timestamp = now, game = g\<rparr>;
               appended = entries @ [new_score];
               sorted_entries = sort_key_reverse (\<lambda>x. (score x, level x)) appended;
               kept = slice_to sorted_entries 10
           in (True, save_scores (m\<lparr>scores := (scores m)(g \<mapsto> kept)\<rparr>))))"


text \<open>A run of \<open>add_score\<close> calls: the manager after each call, in order.\<close>

type_synonym score_call = "string \<times> string \<times> int \<times> int \<times> string"

fun add_scores :: "ScoreboardManager \<Rightarrow> score_call list \<Rightarrow> ScoreboardManager list" where
  "add_scores m [] = []"
| "add_scores m ((g, n, sc, lv, now) # cs) =
     (let m' = snd (add_score m g n sc lv now) in m' # add_scores m' cs)"

text \<open>Entry \<open>a\<close> may stand before entry \<open>b\<close>: score descending, then level descending.\<close>

definition outranks :: "PlayerScore \<Rightarrow> PlayerScore \<Rightarrow> bool" where
  "outranks a b \<longleftrightarrow> score b < score a \<or> (score b = score a \<and> level b \<le> level a)"

definition ranked :: "PlayerScore list \<Rightarrow> bool" where
  "ranked entries \<longleftrightarrow> sorted_wrt outranks entries"

definition store_ok :: "store \<Rightarrow> bool" where
  "store_ok st \<longleftrightarrow> (\<forall>g entries. st g = Some entries \<longrightarrow> ranked entries \<and> length entries \<le> 10)"

definition fresh_manager :: ScoreboardManager where
  "fresh_manager = \<lparr>scores = initial_scores, scores_json = Missing, writable = True\<rparr>"


text \<open>
  A document whose Color Blast list is out of order, and the manager that
  \<open>__init__\<close> builds from it.
\<close>

definition unsorted_scores :: store where
  "unsorted_scores = initial_scores(''Color Blast'' \<mapsto>
     [\<lparr>name = ''Cy'', score = 100, level = 1, timestamp = ''2024-01-01 09:00'',
        game = ''Color Blast''\<rparr>,
      \<lparr>name = ''Di'', score = 900, level = 2, timestamp = ''2024-01-01 09:01'',
        game = ''Color Blast''\<rparr>])"

definition loaded_manager :: ScoreboardManager where
  "loaded_manager =
     \<lparr>scores = unsorted_scores, scores_json = Document unsorted_scores, writable = True\<rparr>"

section \<open>What the three games share\<close>

text \<open>
  A method either returns, or raises with the object left as it was at the raise. Tk
  reports an exception raised in a callback and goes on with the event loop, so the
  state after a raise is the state the next event finds.
\<close>

datatype 'a outcome = Ok 'a | Raised py_error 'a

fun state_of :: "'a outcome \<Rightarrow> 'a" where
  "state_of (Ok s) = s"
| "state_of (Raised e s) = s"

text \<open>Python's \<open>xs[i]\<close>: the position read, or \<open>None\<close> where it raises \<open>IndexError\<close>.\<close>

definition index_of :: "'a list \<Rightarrow> int \<Rightarrow> nat option" where
  "index_of xs i =
     (let n = int (length xs); j = (if i < 0 then n + i else i)
      in if 0 \<le> j \<and> j < n then Some (nat j) else None)"

text \<open>
  A Python float is an IEEE 754 binary64 number. A finite one is given by the real number
  it denotes. The sign of zero and NaN play no part: the clock returns finite numbers, a
  difference of finite numbers is not NaN, and a quotient by a number that is not zero
  is not NaN either.

  \<open>round64\<close> rounds a real to the nearest binary64 number, ties to even: 53 significant
  bits, steps of 2 to the power -1074 below 2 to the power -1022, an infinity from 2 to
  the power 1024 on. \<open>binade a\<close> is the exponent of the power of two at or below \<open>a\<close>,
  never less than -1022; it is found by halving or doubling.
\<close>

datatype float = Finite real | PosInf | NegInf

definition round_half_even :: "real \<Rightarrow> int" where
  "round_half_even x =
     (let f = \<lfloor>x\<rfloor>; d = x - of_int f
      in if d < 1 / 2 then f else if 1 / 2 < d then f + 1 else if even f then f else f + 1)"

fun halvings :: "nat \<Rightarrow> real \<Rightarrow> int" where
  "halvings 0 x = 0"
| "halvings (Suc n) x = (if x < 2 then 0 else 1 + halvings n (x / 2))"

fun doublings :: "nat \<Rightarrow> real \<Rightarrow> int" where
  "doublings 0 x = 0"
| "doublings (Suc n) x = (if 1 \<le> x then 0 else doublings n (2 * x) - 1)"

definition binade :: "real \<Rightarrow> int" where
  "binade a = (if 1 \<le> a then halvings 1024 a else doublings 1022 a)"

definition pow2 :: "int \<Rightarrow> real" where
  "pow2 e = (if 0 \<le> e then 2 ^ nat e else 1 / 2 ^ nat (- e))"

definition round_to :: "real \<Rightarrow> real \<Rightarrow> real" where
  "round_to u a = of_int (round_half_even (a / u)) * u"

definition round64 :: "real \<Rightarrow> float" where
  "round64 x =
     (if x = 0 then Finite 0
      else (let r = round_to (pow2 (binade \<bar>x\<bar> - 52)) \<bar>x\<bar>
            in if 2 ^ 1024 \<le> r then (if 0 < x then PosInf else NegInf)
               else Finite (if 0 < x then r else - r)))"

text \<open>The difference \<open>a - b\<close> of two finite floats.\<close>

definition float_sub :: "real \<Rightarrow> real \<Rightarrow> float" where
  "float_sub a b = round64 (a - b)"

text \<open>
  The quotient \<open>x / y\<close> of a finite float by a float: Python raises for a zero divisor,
  and a finite number divided by an infinity is zero.
\<close>

definition float_div :: "real \<Rightarrow> float \<Rightarrow> py_error + float" where
  "float_div x y =
     (case y of
        Finite b \<Rightarrow> if b = 0 then Inl ZeroDivisionError else Inr (round64 (x / b))
      | PosInf \<Rightarrow> Inr (Finite 0)
      | NegInf \<Rightarrow> Inr (Finite 0))"

text \<open>\<open>int(x)\<close> on a float truncates towards zero and raises for an infinity.\<close>

definition py_int :: "float \<Rightarrow> py_error + int" where
  "py_int x =
     (case x of
        Finite r \<Rightarrow> Inr (if r < 0 then \<lceil>r\<rceil> else \<lfloor>r\<rfloor>)
      | PosInf \<Rightarrow> Inl OverflowError
      | NegInf \<Rightarrow> Inl OverflowError)"

text \<open>
  The callbacks that the games hand to \<open>parent.after\<close>, and the queue of Tk: \<open>after\<close>
  returns a new identifier and \<open>after_cancel\<close> drops the entry of an identifier. The
  purely cosmetic colour flash of the ordered-click game is left out.
\<close>

datatype callback =
  Update_timer | Countdown | New_question | Check_match | Level_complete | Flip_back int int

record Tk =
  after_seq :: nat
  pending :: "(nat \<times> callback) list"

definition after :: "callback \<Rightarrow> Tk \<Rightarrow> nat \<times> Tk" where
  "after cb tk =
     (Suc (after_seq tk),
      tk\<lparr>after_seq := Suc (after_seq tk), pending := pending tk @ [(Suc (after_seq tk), cb)]\<rparr>)"

definition after_cancel :: "nat \<Rightarrow> Tk \<Rightarrow> Tk" where
  "after_cancel i tk = tk\<lparr>pending := filter (\<lambda>e. fst e \<noteq> i) (pending tk)\<rparr>"

definition new_tk :: Tk where
  "new_tk = \<lparr>after_seq = 0, pending = []\<rparr>"

section \<open>Number Rush, the ordered-click game (games/number_rush.py)\<close>

record ButtonData =
  number :: int
  clicked :: bool

record NR_PlayerData =
  nrp_name :: string
  nrp_score :: int
  nrp_time :: float
  nrp_completed :: bool

text \<open>
  The fields of \<open>NumberRushGame\<close> that hold game state, the Tk queue behind
  \<open>self.parent\<close> and the module-level \<open>scoreboard\<close>. Widgets, sounds and dialogs are
  presentation and are left out.
\<close>

record NumberRushGame =
  nr_buttons :: "ButtonData list"
  nr_current_number :: int
  nr_start_time :: "real option"
  nr_game_active :: bool
  nr_timer_id :: "nat option"
  nr_num_players :: int
  nr_current_player :: int
  nr_players :: "NR_PlayerData list"
  nr_current_level :: int
  nr_total_numbers :: int
  nr_parent :: Tk
  nr_scoreboard :: ScoreboardManager

text \<open>\<open>LEVELS\<close>: level to (numbers, time).\<close>

definition NR_LEVELS :: "int \<rightharpoonup> int \<times> int" where
  "NR_LEVELS = [1 \<mapsto> (15, 30), 2 \<mapsto> (20, 35), 3 \<mapsto> (25, 40), 4 \<mapsto> (30, 45), 5 \<mapsto> (40, 60)]"

definition NumberRushGame_init :: "Tk \<Rightarrow> ScoreboardManager \<Rightarrow> NumberRushGame" where
  "NumberRushGame_init tk sb =
     \<lparr>nr_buttons = [], nr_current_number = 1, nr_start_time = None, nr_game_active = False,
      nr_timer_id = None, nr_num_players = 1, nr_current_player = 0, nr_players = [],
      nr_current_level = 1, nr_total_numbers = 15, nr_parent = tk, nr_scoreboard = sb\<rparr>"

text \<open>The block \<open>if self.timer_id: ... after_cancel ...; self.timer_id = None\<close>.\<close>

definition nr_cancel_timer :: "NumberRushGame \<Rightarrow> NumberRushGame" where
  "nr_cancel_timer s =
     (case nr_timer_id s of
        None \<Rightarrow> s
      | Some i \<Rightarrow> s\<lparr>nr_parent := after_cancel i (nr_parent s), nr_timer_id := None\<rparr>)"

text \<open>The loop of \<open>end_game\<close> over the players; \<open>now\<close> is the formatted wall clock.\<close>

fun nr_save_scores ::
  "string \<Rightarrow> int \<Rightarrow> NR_PlayerData list \<Rightarrow> ScoreboardManager \<Rightarrow> ScoreboardManager" where
  "nr_save_scores now lv [] sb = sb"
| "nr_save_scores now lv (p # ps) sb =
     nr_save_scores now lv ps
       (if nrp_completed p
        then snd (add_score sb ''Number Rush'' (nrp_name p) (nrp_score p) lv now)
        else sb)"

definition nr_end_game :: "string \<Rightarrow> NumberRushGame \<Rightarrow> NumberRushGame" where
  "nr_end_game now s =
     (let s1 = nr_cancel_timer (s\<lparr>nr_game_active := False\<rparr>)
      in s1\<lparr>nr_scoreboard :=
              nr_save_scores now (nr_current_level s1) (nr_players s1) (nr_scoreboard s1)\<rparr>)"

text \<open>
  \<open>round_complete\<close>; \<open>t\<close> is the value of \<open>time.time()\<close>. The division raises when no
  time has passed, and \<open>int\<close> raises when the quotient is an infinity, both after the
  time and the completed flag have been written.
\<close>

definition nr_next_player :: "string \<Rightarrow> NumberRushGame \<Rightarrow> NumberRushGame" where
  "nr_next_player now s =
     (let s1 = s\<lparr>nr_current_player := nr_current_player s + 1\<rparr>
      in if nr_current_player s1 < nr_num_players s1 then s1 else nr_end_game now s1)"

definition nr_round_complete :: "real \<Rightarrow> string \<Rightarrow> NumberRushGame \<Rightarrow> NumberRushGame outcome" where
  "nr_round_complete t now s =
     (let s1 = nr_cancel_timer (s\<lparr>nr_game_active := False\<rparr>)
      in case nr_start_time s1 of
           None \<Rightarrow> Ok (nr_next_player now s1)
         | Some t0 \<Rightarrow>
             (let elapsed = float_sub t t0
              in case index_of (nr_players s1) (nr_current_player s1) of
                   None \<Rightarrow> Raised IndexError s1
                 | Some k \<Rightarrow>
                     (let player = (nr_players s1 ! k)\<lparr>nrp_time := elapsed, nrp_completed := True\<rparr>;
                          s2 = s1\<lparr>nr_players := (nr_players s1)[k := player]\<rparr>
                      in case float_div 10000 elapsed of
                           Inl e \<Rightarrow> Raised e s2
                         | Inr q \<Rightarrow>
                             (case py_int q of
                                Inl e \<Rightarrow> Raised e s2
                              | Inr n \<Rightarrow>
                                  Ok (nr_next_player now
                                    (s2\<lparr>nr_players := (nr_players s1)
                                       [k := player\<lparr>nrp_score :=
                                          n * nr_current_level s1\<rparr>]\<rparr>))))))"

definition nr_update_timer :: "NumberRushGame \<Rightarrow> NumberRushGame" where
  "nr_update_timer s =
     (if nr_game_active s \<and> nr_start_time s \<noteq> None
      then (case after Update_timer (nr_parent s) of
              (i, tk) \<Rightarrow> s\<lparr>nr_parent := tk, nr_timer_id := Some i\<rparr>)
      else s)"

text \<open>\<open>create_game_grid\<close>; \<open>numbers\<close> is the shuffled \<open>range(1, total_numbers + 1)\<close>.\<close>

definition nr_create_game_grid :: "int list \<Rightarrow> NumberRushGame \<Rightarrow> NumberRushGame" where
  "nr_create_game_grid numbers s =
     s\<lparr>nr_buttons := map (\<lambda>n. \<lparr>number = n, clicked = False\<rparr>) numbers\<rparr>"

function nr_start_round ::
  "real \<Rightarrow> int list \<Rightarrow> string \<Rightarrow> NumberRushGame \<Rightarrow> NumberRushGame outcome" where
  "nr_start_round t numbers now s =
     (if nr_current_player s \<ge> int (length (nr_players s)) then Ok (nr_end_game now s)
      else case index_of (nr_players s) (nr_current_player s) of
             None \<Rightarrow> Raised IndexError s
           | Some k \<Rightarrow>
               if nrp_completed (nr_players s ! k)
               then nr_start_round t numbers now (s\<lparr>nr_current_player := nr_current_player s + 1\<rparr>)
               else Ok (nr_update_timer (nr_create_game_grid numbers
                          (s\<lparr>nr_current_number := 1, nr_start_time := Some t,
                             nr_game_active := True\<rparr>))))"
  by pat_completeness auto
termination
  by (relation "measure (\<lambda>(t, numbers, now, s).
        nat (int (length (nr_players s)) - nr_current_player s))") auto

declare nr_start_round.simps [simp del]

text \<open>The first button that carries the number is marked (the loop ends at \<open>break\<close>).\<close>

fun mark_clicked :: "int \<Rightarrow> ButtonData list \<Rightarrow> ButtonData list" where
  "mark_clicked num [] = []"
| "mark_clicked num (b # bs) =
     (if number b = num then b\<lparr>clicked := True\<rparr> # bs else b # mark_clicked num bs)"

definition nr_number_clicked ::
  "int \<Rightarrow> real \<Rightarrow> string \<Rightarrow> NumberRushGame \<Rightarrow> NumberRushGame outcome" where
  "nr_number_clicked num t now s =
     (if \<not> nr_game_active s then Ok s
      else if num = nr_current_number s
      then (let s1 = s\<lparr>nr_buttons := mark_clicked num (nr_buttons s),
                       nr_current_number := nr_current_number s + 1\<rparr>
            in if nr_current_number s1 > nr_total_numbers s1
               then nr_round_complete t now s1 else Ok s1)
      else Ok s)"

definition nr_back_to_menu :: "NumberRushGame \<Rightarrow> NumberRushGame" where
  "nr_back_to_menu s = nr_cancel_timer (s\<lparr>nr_game_active := False\<rparr>)"

definition nr_destroy :: "NumberRushGame \<Rightarrow> NumberRushGame" where
  "nr_destroy s = nr_cancel_timer (s\<lparr>nr_game_active := False\<rparr>)"

text \<open>
  \<open>start_game\<close> of the setup screen: \<open>names\<close> are the names as entered (one per
  player), \<open>lv\<close> the chosen level.
\<close>

definition nr_start_game ::
  "string list \<Rightarrow> int \<Rightarrow> real \<Rightarrow> int list \<Rightarrow> string \<Rightarrow> NumberRushGame \<Rightarrow> NumberRushGame outcome" where
  "nr_start_game names lv t numbers now s =
     (let s1 = s\<lparr>nr_players := map (\<lambda>n. \<lparr>nrp_name = n, nrp_score = 0, nrp_time = Finite 0,
                                           nrp_completed = False\<rparr>) names,
                  nr_num_players := int (length names), nr_current_level := lv\<rparr>
      in case NR_LEVELS lv of
           None \<Rightarrow> Raised KeyError s1
         | Some (n, tm) \<Rightarrow> nr_start_round t numbers now (s1\<lparr>nr_total_numbers := n\<rparr>))"

text \<open>The events of a session, and the session as the list of states they lead through.\<close>

datatype nr_event =
    NR_start_round real "int list" string
  | NR_number_clicked int real string
  | NR_update_timer nat
  | NR_back_to_menu
  | NR_destroy

fun nr_step :: "nr_event \<Rightarrow> NumberRushGame \<Rightarrow> NumberRushGame outcome" where
  "nr_step (NR_start_round t numbers now) s = nr_start_round t numbers now s"
| "nr_step (NR_number_clicked num t now) s = nr_number_clicked num t now s"
| "nr_step (NR_update_timer i) s =
     Ok (nr_update_timer (s\<lparr>nr_parent := after_cancel i (nr_parent s)\<rparr>))"
| "nr_step NR_back_to_menu s = Ok (nr_back_to_menu s)"
| "nr_step NR_destroy s = Ok (nr_destroy s)"

fun nr_run :: "nr_event list \<Rightarrow> NumberRushGame \<Rightarrow> NumberRushGame list" where
  "nr_run [] s = [s]"
| "nr_run (e # es) s = s # nr_run es (state_of (nr_step e s))"

section \<open>Color Blast, the discrimination game (games/color_blast.py)\<close>

record CB_PlayerData =
  cbp_name :: string
  cbp_score :: int
  cbp_completed :: bool

record ColorBlastGame =
  cb_score :: int
  cb_time_left :: int
  cb_game_active :: bool
  cb_correct_answer :: int
  cb_timer_id :: "nat option"
  cb_num_players :: int
  cb_current_player :: int
  cb_players :: "CB_PlayerData list"
  cb_current_level :: int
  cb_target_score :: int
  cb_parent :: Tk
  cb_scoreboard :: ScoreboardManager

text \<open>\<open>LEVELS\<close>: level to (time, target).\<close>

definition CB_LEVELS :: "int \<rightharpoonup> int \<times> int" where
  "CB_LEVELS = [1 \<mapsto> (45, 10), 2 \<mapsto> (40, 15), 3 \<mapsto> (35, 20), 4 \<mapsto> (30, 25), 5 \<mapsto> (25, 30)]"

definition ColorBlastGame_init :: "Tk \<Rightarrow> ScoreboardManager \<Rightarrow> ColorBlastGame" where
  "ColorBlastGame_init tk sb =
     \<lparr>cb_score = 0, cb_time_left = 45, cb_game_active = False, cb_correct_answer = 0,
      cb_timer_id = None, cb_num_players = 1, cb_current_player = 0, cb_players = [],
      cb_current_level = 1, cb_target_score = 10, cb_parent = tk, cb_scoreboard = sb\<rparr>"

definition cb_cancel_timer :: "ColorBlastGame \<Rightarrow> ColorBlastGame" where
  "cb_cancel_timer s =
     (case cb_timer_id s of
        None \<Rightarrow> s
      | Some i \<Rightarrow> s\<lparr>cb_parent := after_cancel i (cb_parent s), cb_timer_id := None\<rparr>)"

fun cb_save_scores ::
  "string \<Rightarrow> int \<Rightarrow> CB_PlayerData list \<Rightarrow> ScoreboardManager \<Rightarrow> ScoreboardManager" where
  "cb_save_scores now lv [] sb = sb"
| "cb_save_scores now lv (p # ps) sb =
     cb_save_scores now lv ps
       (if cbp_completed p
        then snd (add_score sb ''Color Blast'' (cbp_name p) (cbp_score p) lv now)
        else sb)"

definition cb_end_game :: "string \<Rightarrow> ColorBlastGame \<Rightarrow> ColorBlastGame" where
  "cb_end_game now s =
     (let s1 = cb_cancel_timer (s\<lparr>cb_game_active := False\<rparr>)
      in s1\<lparr>cb_scoreboard :=
              cb_save_scores now (cb_current_level s1) (cb_players s1) (cb_scoreboard s1)\<rparr>)"

text \<open>
  \<open>new_question\<close>: the random draws are an input, \<open>ans\<close> being the place of the right
  colour among the four shuffled options.
\<close>

definition cb_new_question :: "int \<Rightarrow> ColorBlastGame \<Rightarrow> ColorBlastGame" where
  "cb_new_question ans s = (if \<not> cb_game_active s then s else s\<lparr>cb_correct_answer := ans\<rparr>)"

definition cb_round_over :: "string \<Rightarrow> ColorBlastGame \<Rightarrow> ColorBlastGame outcome" where
  "cb_round_over now s =
     (let s1 = s\<lparr>cb_game_active := False\<rparr>
      in if cb_current_player s1 \<ge> int (length (cb_players s1)) then Ok (cb_end_game now s1)
         else case index_of (cb_players s1) (cb_current_player s1) of
                None \<Rightarrow> Raised IndexError s1
              | Some k \<Rightarrow>
                  (let player = (cb_players s1 ! k)
                         \<lparr>cbp_score := cb_score s1 * cb_current_level s1 * 10,
                          cbp_completed := True\<rparr>;
                       s2 = s1\<lparr>cb_players := (cb_players s1)[k := player],
                               cb_current_player := cb_current_player s1 + 1\<rparr>
                   in if cb_current_player s2 < cb_num_players s2 then Ok s2
                      else Ok (cb_end_game now s2)))"

definition cb_countdown :: "string \<Rightarrow> ColorBlastGame \<Rightarrow> ColorBlastGame outcome" where
  "cb_countdown now s =
     (if \<not> cb_game_active s then Ok s
      else if cb_time_left s > 0
      then (case after Countdown (cb_parent s) of
              (i, tk) \<Rightarrow> Ok (s\<lparr>cb_time_left := cb_time_left s - 1, cb_parent := tk,
                               cb_timer_id := Some i\<rparr>))
      else cb_round_over now s)"

text \<open>There are four answer buttons; \<open>answer_buttons[i]\<close> raises outside \<open>-4 \<le> i < 4\<close>.\<close>

definition answer_button :: "int \<Rightarrow> bool" where
  "answer_button i \<longleftrightarrow> - 4 \<le> i \<and> i < 4"

definition cb_check_answer :: "int \<Rightarrow> ColorBlastGame \<Rightarrow> ColorBlastGame outcome" where
  "cb_check_answer idx s =
     (if \<not> cb_game_active s then Ok s
      else if idx = cb_correct_answer s
      then (let s1 = s\<lparr>cb_score := cb_score s + 1\<rparr>
            in if \<not> answer_button idx then Raised IndexError s1
               else Ok (s1\<lparr>cb_parent := snd (after New_question (cb_parent s1))\<rparr>))
      else if \<not> answer_button idx \<or> \<not> answer_button (cb_correct_answer s)
      then Raised IndexError s
      else Ok (s\<lparr>cb_parent := snd (after New_question (cb_parent s))\<rparr>))"

function cb_start_round :: "int \<Rightarrow> string \<Rightarrow> ColorBlastGame \<Rightarrow> ColorBlastGame outcome" where
  "cb_start_round ans now s =
     (if cb_current_player s \<ge> int (length (cb_players s)) then Ok (cb_end_game now s)
      else case index_of (cb_players s) (cb_current_player s) of
             None \<Rightarrow> Raised IndexError s
           | Some k \<Rightarrow>
               if cbp_completed (cb_players s ! k)
               then cb_start_round ans now (s\<lparr>cb_current_player := cb_current_player s + 1\<rparr>)
               else (case CB_LEVELS (cb_current_level s) of
                       None \<Rightarrow> Raised KeyError (s\<lparr>cb_score := 0\<rparr>)
                     | Some (tm, target) \<Rightarrow>
                         cb_countdown now (cb_new_question ans
                           (s\<lparr>cb_score := 0, cb_time_left := tm, cb_game_active := True\<rparr>))))"
  by pat_completeness auto
termination
  by (relation "measure (\<lambda>(ans, now, s).
        nat (int (length (cb_players s)) - cb_current_player s))") auto

declare cb_start_round.simps [simp del]

definition cb_back_to_menu :: "ColorBlastGame \<Rightarrow> ColorBlastGame" where
  "cb_back_to_menu s = cb_cancel_timer (s\<lparr>cb_game_active := False\<rparr>)"

definition cb_destroy :: "ColorBlastGame \<Rightarrow> ColorBlastGame" where
  "cb_destroy s = cb_cancel_timer (s\<lparr>cb_game_active := False\<rparr>)"

definition cb_start_game ::
  "string list \<Rightarrow> int \<Rightarrow> int \<Rightarrow> string \<Rightarrow> ColorBlastGame \<Rightarrow> ColorBlastGame outcome" where
  "cb_start_game names lv ans now s =
     (let s1 = s\<lparr>cb_players := map (\<lambda>n. \<lparr>cbp_name = n, cbp_score = 0,
                                           cbp_completed = False\<rparr>) names,
                  cb_num_players := int (length names), cb_current_level := lv\<rparr>
      in case CB_LEVELS lv of
           None \<Rightarrow> Raised KeyError s1
         | Some (tm, target) \<Rightarrow>
             cb_start_round ans now (s1\<lparr>cb_time_left := tm, cb_target_score := target\<rparr>))"

datatype cb_event =
    CB_start_round int string
  | CB_check_answer int
  | CB_countdown nat string
  | CB_new_question nat int
  | CB_back_to_menu
  | CB_destroy

fun cb_step :: "cb_event \<Rightarrow> ColorBlastGame \<Rightarrow> ColorBlastGame outcome" where
  "cb_step (CB_start_round ans now) s = cb_start_round ans now s"
| "cb_step (CB_check_answer idx) s = cb_check_answer idx s"
| "cb_step (CB_countdown i now) s =
     cb_countdown now (s\<lparr>cb_parent := after_cancel i (cb_parent s)\<rparr>)"
| "cb_step (CB_new_question i ans) s =
     Ok (cb_new_question ans (s\<lparr>cb_parent := after_cancel i (cb_parent s)\<rparr>))"
| "cb_step CB_back_to_menu s = Ok (cb_back_to_menu s)"
| "cb_step CB_destroy s = Ok (cb_destroy s)"

fun cb_run :: "cb_event list \<Rightarrow> ColorBlastGame \<Rightarrow> ColorBlastGame list" where
  "cb_run [] s = [s]"
| "cb_run (e # es) s = s # cb_run es (state_of (cb_step e s))"

section \<open>Memory Match, the matching game (games/memory_match.py)\<close>

record CardData =
  symbol :: string
  card_flipped :: bool
  card_matched :: bool

record MM_PlayerData =
  mmp_name :: string
  mmp_score :: int
  mmp_matches :: int
  mmp_streak :: int

text \<open>
  \<open>mm_main_canvas\<close> tells whether the widgets built by \<open>setup_ui\<close> still exist: the
  card canvases are children of the main canvas, and a command on a destroyed widget
  raises \<open>TclError\<close>. The class has no flag that says a round is live.
\<close>

record MemoryMatchGame =
  mm_cards :: "CardData list"
  mm_flipped :: "int list"
  mm_matched :: "int list"
  mm_moves :: int
  mm_check_id :: "nat option"
  mm_num_players :: int
  mm_current_player :: int
  mm_players :: "MM_PlayerData list"
  mm_current_level :: int
  mm_grid_size :: int
  mm_total_pairs :: int
  mm_main_canvas :: bool
  mm_parent :: Tk
  mm_scoreboard :: ScoreboardManager

text \<open>\<open>LEVELS\<close>: level to (grid, pairs, bonus).\<close>

definition MM_LEVELS :: "int \<rightharpoonup> int \<times> int \<times> int" where
  "MM_LEVELS = [1 \<mapsto> (4, 8, 100), 2 \<mapsto> (4, 8, 150), 3 \<mapsto> (5, 12, 200),
                4 \<mapsto> (6, 18, 300), 5 \<mapsto> (6, 18, 500)]"

definition MemoryMatchGame_init :: "Tk \<Rightarrow> ScoreboardManager \<Rightarrow> MemoryMatchGame" where
  "MemoryMatchGame_init tk sb =
     \<lparr>mm_cards = [], mm_flipped = [], mm_matched = [], mm_moves = 0, mm_check_id = None,
      mm_num_players = 1, mm_current_player = 0, mm_players = [], mm_current_level = 1,
      mm_grid_size = 4, mm_total_pairs = 8, mm_main_canvas = False, mm_parent = tk,
      mm_scoreboard = sb\<rparr>"

text \<open>
  \<open>start_level\<close>; \<open>symbols\<close> is the shuffled list of card symbols. The grid loops lay
  out at most \<open>grid_size * grid_size\<close> of them.
\<close>

definition mm_start_level :: "string list \<Rightarrow> MemoryMatchGame \<Rightarrow> MemoryMatchGame outcome" where
  "mm_start_level symbols s =
     (let s1 = s\<lparr>mm_cards := [], mm_flipped := [], mm_matched := [], mm_moves := 0,
                  mm_players := map (\<lambda>p. p\<lparr>mmp_matches := 0, mmp_streak := 0\<rparr>) (mm_players s),
                  mm_current_player := 0\<rparr>
      in if \<not> mm_main_canvas s1 then Raised TclError s1
         else Ok (s1\<lparr>mm_cards :=
                   map (\<lambda>x. \<lparr>symbol = x, card_flipped = False, card_matched = False\<rparr>)
                     (take (nat (mm_grid_size s1) * nat (mm_grid_size s1)) symbols)\<rparr>))"

definition mm_flip_card :: "int \<Rightarrow> MemoryMatchGame \<Rightarrow> MemoryMatchGame outcome" where
  "mm_flip_card idx s =
     (if idx \<ge> int (length (mm_cards s)) then Ok s
      else case index_of (mm_cards s) idx of
             None \<Rightarrow> Raised IndexError s
           | Some k \<Rightarrow>
               if card_flipped (mm_cards s ! k) \<or> card_matched (mm_cards s ! k)
                  \<or> length (mm_flipped s) \<ge> 2
               then Ok s
               else if \<not> mm_main_canvas s then Raised TclError s
               else (let s1 = s\<lparr>mm_cards := (mm_cards s)[k := (mm_cards s ! k)\<lparr>card_flipped := True\<rparr>],
                                mm_flipped := mm_flipped s @ [idx]\<rparr>
                     in if length (mm_flipped s1) = 2
                        then (case after Check_match (mm_parent s1) of
                                (i, tk) \<Rightarrow> Ok (s1\<lparr>mm_moves := mm_moves s1 + 1, mm_parent := tk,
                                                 mm_check_id := Some i\<rparr>))
                        else Ok s1))"

text \<open>\<open>check_match\<close>, the callback that \<open>flip_card\<close> schedules.\<close>

definition mm_check_match :: "MemoryMatchGame \<Rightarrow> MemoryMatchGame outcome" where
  "mm_check_match s =
     (case mm_flipped s of
        [idx1, idx2] \<Rightarrow>
          (case (index_of (mm_cards s) idx1, index_of (mm_cards s) idx2) of
             (Some k1, Some k2) \<Rightarrow>
               if symbol (mm_cards s ! k1) = symbol (mm_cards s ! k2)
               then
                 (let cards1 = (mm_cards s)[k1 := (mm_cards s ! k1)\<lparr>card_matched := True\<rparr>];
                      cards2 = cards1[k2 := (cards1 ! k2)\<lparr>card_matched := True\<rparr>];
                      s1 = s\<lparr>mm_cards := cards2, mm_matched := mm_matched s @ [idx1, idx2]\<rparr>
                  in if \<not> mm_main_canvas s1 then Raised TclError s1
                     else case index_of (mm_players s1) (mm_current_player s1) of
                            None \<Rightarrow> Raised IndexError s1
                          | Some k \<Rightarrow>
                              (let p = mm_players s1 ! k;
                                   streak = mmp_streak p + 1;
                                   base_score = 10 * mm_current_level s1;
                                   streak_multiplier = 1 + streak div 3;
                                   p' = p\<lparr>mmp_matches := mmp_matches p + 1, mmp_streak := streak,
                                          mmp_score := mmp_score p + base_score * streak_multiplier\<rparr>;
                                   s2 = s1\<lparr>mm_players := (mm_players s1)[k := p']\<rparr>;
                                   s3 = (if length (mm_matched s2) \<ge> length (mm_cards s2)
                                         then s2\<lparr>mm_parent := snd (after Level_complete (mm_parent s2))\<rparr>
                                         else s2)
                               in Ok (s3\<lparr>mm_flipped := []\<rparr>)))
               else
                 (if \<not> mm_main_canvas s then Raised TclError s
                  else case index_of (mm_players s) (mm_current_player s) of
                         None \<Rightarrow> Raised IndexError s
                       | Some k \<Rightarrow>
                           (let s1 = s\<lparr>mm_players :=
                                        (mm_players s)[k := (mm_players s ! k)\<lparr>mmp_streak := 0\<rparr>]\<rparr>;
                                s2 = (if mm_num_players s1 > 1
                                      then s1\<lparr>mm_current_player :=
                                              (mm_current_player s1 + 1) mod mm_num_players s1\<rparr>
                                      else s1)
                            in Ok (s2\<lparr>mm_parent := snd (after (Flip_back idx1 idx2) (mm_parent s2)),
                                      mm_flipped := []\<rparr>)))
           | _ \<Rightarrow> Raised IndexError s)
      | _ \<Rightarrow> Ok s)"

text \<open>\<open>flip_back\<close>: the loop over the two indices.\<close>

fun mm_flip_back_loop :: "int list \<Rightarrow> MemoryMatchGame \<Rightarrow> MemoryMatchGame outcome" where
  "mm_flip_back_loop [] s = Ok s"
| "mm_flip_back_loop (i # is) s =
     (if i < int (length (mm_cards s))
      then (case index_of (mm_cards s) i of
              None \<Rightarrow> Raised IndexError s
            | Some k \<Rightarrow>
                (let s1 = s\<lparr>mm_cards := (mm_cards s)[k := (mm_cards s ! k)\<lparr>card_flipped := False\<rparr>]\<rparr>
                 in if \<not> mm_main_canvas s1 then Raised TclError s1
                    else mm_flip_back_loop is s1))
      else mm_flip_back_loop is s)"

definition mm_flip_back :: "int \<Rightarrow> int \<Rightarrow> MemoryMatchGame \<Rightarrow> MemoryMatchGame outcome" where
  "mm_flip_back idx1 idx2 s = mm_flip_back_loop [idx1, idx2] s"

text \<open>\<open>save_results\<close>: one \<open>add_score\<close> for every player of the roster.\<close>

fun mm_save_scores ::
  "string \<Rightarrow> int \<Rightarrow> MM_PlayerData list \<Rightarrow> ScoreboardManager \<Rightarrow> ScoreboardManager" where
  "mm_save_scores now lv [] sb = sb"
| "mm_save_scores now lv (p # ps) sb =
     mm_save_scores now lv ps
       (snd (add_score sb ''Memory Match'' (mmp_name p) (mmp_score p) lv now))"

definition mm_save_results :: "string \<Rightarrow> MemoryMatchGame \<Rightarrow> MemoryMatchGame" where
  "mm_save_results now s =
     s\<lparr>mm_scoreboard :=
         mm_save_scores now (mm_current_level s) (mm_players s) (mm_scoreboard s)\<rparr>"

text \<open>
  \<open>level_complete\<close>, scheduled by \<open>check_match\<close>; \<open>continue\<close> is the answer to the
  yes/no dialog and \<open>symbols\<close> the shuffle of the next level.
\<close>

definition mm_level_complete ::
  "bool \<Rightarrow> string list \<Rightarrow> string \<Rightarrow> MemoryMatchGame \<Rightarrow> MemoryMatchGame outcome" where
  "mm_level_complete continue symbols now s =
     (case MM_LEVELS (mm_current_level s) of
        None \<Rightarrow> Raised KeyError s
      | Some (grid, pairs, bonus) \<Rightarrow>
          (let s1 = s\<lparr>mm_players :=
                       map (\<lambda>p. if mmp_matches p > 0 then p\<lparr>mmp_score := mmp_score p + bonus\<rparr> else p)
                         (mm_players s)\<rparr>
           in if mm_current_level s1 < 5
              then (if continue
                    then (let s2 = s1\<lparr>mm_current_level := mm_current_level s1 + 1\<rparr>
                          in case MM_LEVELS (mm_current_level s2) of
                               None \<Rightarrow> Raised KeyError s2
                             | Some (grid', pairs', bonus') \<Rightarrow>
                                 mm_start_level symbols
                                   (s2\<lparr>mm_grid_size := grid', mm_total_pairs := pairs'\<rparr>))
                    else Ok (mm_save_results now s1))
              else Ok (mm_save_results now s1)))"

definition mm_cancel_check :: "MemoryMatchGame \<Rightarrow> MemoryMatchGame" where
  "mm_cancel_check s =
     (case mm_check_id s of
        None \<Rightarrow> s
      | Some i \<Rightarrow> s\<lparr>mm_parent := after_cancel i (mm_parent s), mm_check_id := None\<rparr>)"

definition mm_back_to_menu :: "MemoryMatchGame \<Rightarrow> MemoryMatchGame" where
  "mm_back_to_menu s = (mm_cancel_check s)\<lparr>mm_main_canvas := False\<rparr>"

definition mm_destroy :: "MemoryMatchGame \<Rightarrow> MemoryMatchGame" where
  "mm_destroy s = (mm_cancel_check s)\<lparr>mm_main_canvas := False\<rparr>"

definition mm_start_game ::
  "string list \<Rightarrow> int \<Rightarrow> string list \<Rightarrow> MemoryMatchGame \<Rightarrow> MemoryMatchGame outcome" where
  "mm_start_game names lv symbols s =
     (let s1 = s\<lparr>mm_players := map (\<lambda>n. \<lparr>mmp_name = n, mmp_score = 0, mmp_matches = 0,
                                           mmp_streak = 0\<rparr>) names,
                  mm_num_players := int (length names), mm_current_level := lv\<rparr>
      in case MM_LEVELS lv of
           None \<Rightarrow> Raised KeyError s1
         | Some (grid, pairs, bonus) \<Rightarrow>
             mm_start_level symbols
               (s1\<lparr>mm_grid_size := grid, mm_total_pairs := pairs, mm_main_canvas := True\<rparr>))"

text \<open>
  The events of a session of the matching game: a click on a card, the three timer
  callbacks, the Restart button and the two ways out.
\<close>

datatype mm_event =
    MM_flip_card int
  | MM_check_match nat
  | MM_flip_back nat int int
  | MM_level_complete nat bool "string list" string
  | MM_start_level "string list"
  | MM_back_to_menu
  | MM_destroy

fun mm_step :: "mm_event \<Rightarrow> MemoryMatchGame \<Rightarrow> MemoryMatchGame outcome" where
  "mm_step (MM_flip_card idx) s = mm_flip_card idx s"
| "mm_step (MM_check_match i) s =
     mm_check_match (s\<lparr>mm_parent := after_cancel i (mm_parent s)\<rparr>)"
| "mm_step (MM_flip_back i idx1 idx2) s =
     mm_flip_back idx1 idx2 (s\<lparr>mm_parent := after_cancel i (mm_parent s)\<rparr>)"
| "mm_step (MM_level_complete i continue symbols now) s =
     mm_level_complete continue symbols now (s\<lparr>mm_parent := after_cancel i (mm_parent s)\<rparr>)"
| "mm_step (MM_start_level symbols) s = mm_start_level symbols s"
| "mm_step MM_back_to_menu s = Ok (mm_back_to_menu s)"
| "mm_step MM_destroy s = Ok (mm_destroy s)"

fun mm_run :: "mm_event list \<Rightarrow> MemoryMatchGame \<Rightarrow> MemoryMatchGame list" where
  "mm_run [] s = [s]"
| "mm_run (e # es) s = s # mm_run es (state_of (mm_step e s))"

section \<open>Sessions and sample states\<close>

text \<open>
  What every state of a session of the two turn-based games satisfies: the roster has
  \<open>num_players\<close> entries, the index of the current player is not negative, and a round
  is live only for a player of the roster.
\<close>

definition nr_session_ok :: "NumberRushGame \<Rightarrow> bool" where
  "nr_session_ok s \<longleftrightarrow>
     nr_num_players s = int (length (nr_players s)) \<and> 0 \<le> nr_current_player s
     \<and> (nr_game_active s \<longrightarrow> nr_current_player s < nr_num_players s)"

definition cb_session_ok :: "ColorBlastGame \<Rightarrow> bool" where
  "cb_session_ok s \<longleftrightarrow>
     cb_num_players s = int (length (cb_players s)) \<and> 0 \<le> cb_current_player s
     \<and> (cb_game_active s \<longrightarrow> cb_current_player s < cb_num_players s)"

text \<open>In the matching game the index of the current player is that of a player.\<close>

definition mm_turn_ok :: "MemoryMatchGame \<Rightarrow> bool" where
  "mm_turn_ok s \<longleftrightarrow> 0 \<le> mm_current_player s \<and> mm_current_player s < mm_num_players s"

text \<open>
  Sample states. An ordered-click round of two players at level 3 that started at time
  100, the same round at level 1 started at time 0, and the same game after the player
  left; a discrimination round at level 2; a
  matching game at level 2 in which the first player has a streak of three and two equal
  cards lie open, the same with two different cards open, and both after the player left.
\<close>

definition nr_sample :: NumberRushGame where
  "nr_sample = (NumberRushGame_init new_tk fresh_manager)
     \<lparr>nr_players := [\<lparr>nrp_name = ''Ada'', nrp_score = 0, nrp_time = Finite 0, nrp_completed = False\<rparr>,
                     \<lparr>nrp_name = ''Bob'', nrp_score = 0, nrp_time = Finite 0, nrp_completed = False\<rparr>],
      nr_num_players := 2, nr_current_level := 3, nr_total_numbers := 25,
      nr_start_time := Some 100, nr_game_active := True\<rparr>"


definition nr_sample_done :: NumberRushGame where
  "nr_sample_done = state_of (nr_round_complete 105 ''2024-01-01 10:00'' nr_sample)"

definition nr_idle :: NumberRushGame where
  "nr_idle = nr_back_to_menu nr_sample"

definition cb_sample :: ColorBlastGame where
  "cb_sample = (ColorBlastGame_init new_tk fresh_manager)
     \<lparr>cb_players := [\<lparr>cbp_name = ''Ada'', cbp_score = 0, cbp_completed = False\<rparr>,
                     \<lparr>cbp_name = ''Bob'', cbp_score = 0, cbp_completed = False\<rparr>],
      cb_num_players := 2, cb_current_level := 2, cb_time_left := 40, cb_target_score := 15,
      cb_score := 4, cb_correct_answer := 2, cb_game_active := True\<rparr>"

definition cb_idle :: ColorBlastGame where
  "cb_idle = cb_back_to_menu cb_sample"

definition mm_sample :: MemoryMatchGame where
  "mm_sample = (MemoryMatchGame_init new_tk fresh_manager)
     \<lparr>mm_cards := [\<lparr>symbol = ''cat'', card_flipped = True, card_matched = False\<rparr>,
                   \<lparr>symbol = ''cat'', card_flipped = True, card_matched = False\<rparr>,
                   \<lparr>symbol = ''dog'', card_flipped = False, card_matched = False\<rparr>,
                   \<lparr>symbol = ''dog'', card_flipped = False, card_matched = False\<rparr>],
      mm_flipped := [0, 1], mm_moves := 4,
      mm_players := [\<lparr>mmp_name = ''Ada'', mmp_score = 80, mmp_matches = 3, mmp_streak = 3\<rparr>,
                     \<lparr>mmp_name = ''Bob'', mmp_score = 0, mmp_matches = 0, mmp_streak = 0\<rparr>],
      mm_num_players := 2, mm_current_level := 2, mm_main_canvas := True,
      mm_check_id := Some 1, mm_parent := \<lparr>after_seq = 1, pending = [(1, Check_match)]\<rparr>\<rparr>"

definition mm_mismatch :: MemoryMatchGame where
  "mm_mismatch = mm_sample
     \<lparr>mm_cards := [\<lparr>symbol = ''cat'', card_flipped = False, card_matched = False\<rparr>,
                   \<lparr>symbol = ''cat'', card_flipped = True, card_matched = False\<rparr>,
                   \<lparr>symbol = ''dog'', card_flipped = True, card_matched = False\<rparr>,
                   \<lparr>symbol = ''dog'', card_flipped = False, card_matched = False\<rparr>],
      mm_flipped := [1, 2], mm_current_player := 1\<rparr>"

definition mm_left :: MemoryMatchGame where
  "mm_left = mm_back_to_menu mm_sample"

definition mm_left_early :: MemoryMatchGame where
  "mm_left_early = mm_back_to_menu (state_of (mm_check_match mm_mismatch))"

text \<open>
  A whole session of each turn-based game with one player: fifteen clicks in order at
  level 1, and the twenty-five ticks of the countdown at level 5. The start of a
  matching game of two players at level 1, in which each player opens two different
  cards.
\<close>

definition nr_session_start :: NumberRushGame where
  "nr_session_start = state_of (nr_start_game [''Ada''] 1 100
      [3, 1, 2, 5, 4, 8, 7, 6, 10, 9, 15, 14, 13, 12, 11] ''2024-01-01 10:00''
      (NumberRushGame_init new_tk fresh_manager))"

definition nr_session_events :: "nr_event list" where
  "nr_session_events = map (\<lambda>n. NR_number_clicked n 105 ''2024-01-01 10:00'')
      [1, 2, 3, 4, 5, 6, 7, 8, 9, 10, 11, 12, 13, 14, 15]"

definition cb_session_start :: ColorBlastGame where
  "cb_session_start = state_of (cb_start_game [''Ada''] 5 2 ''2024-01-01 10:00''
      (ColorBlastGame_init new_tk fresh_manager))"

definition mm_session_start :: MemoryMatchGame where
  "mm_session_start = state_of (mm_start_game [''Ada'', ''Bob''] 1
      [''a'', ''b'', ''c'', ''d'', ''e'', ''f'', ''g'', ''h'',
       ''a'', ''b'', ''c'', ''d'', ''e'', ''f'', ''g'', ''h'']
      (MemoryMatchGame_init new_tk fresh_manager))"

definition mm_session_events :: "mm_event list" where
  "mm_session_events =
     [MM_flip_card 0, MM_flip_card 1, MM_check_match 1, MM_flip_back 2 0 1,
      MM_flip_card 2, MM_flip_card 3, MM_check_match 3]"

definition cb_session_events :: "cb_event list" where
  "cb_session_events = map (\<lambda>i. CB_countdown i ''2024-01-01 10:00'')
      [1, 2, 3, 4, 5, 6, 7, 8, 9, 10, 11, 12, 13, 14, 15, 16, 17, 18, 19, 20, 21, 22, 23, 24, 25]"

section \<open>Properties of the leaderboard store\<close>

lemma outranks_key: "outranks a b \<longleftrightarrow> (score b, level b) \<le> (score a, level a)"
  by (auto simp: outranks_def less_eq_prod_def)

lemma ranked_sort_key_reverse: "ranked (sort_key_reverse (\<lambda>x. (score x, level x)) xs)"
proof -
  let ?k = "\<lambda>x. (score x, level x)"
  have "sorted (map ?k (sort_key ?k (rev xs)))"
    by (rule sorted_sort_key)
  then have "sorted_wrt (\<lambda>a b. ?k a \<le> ?k b) (sort_key ?k (rev xs))"
    by (simp add: sorted_map)
  then have "sorted_wrt (\<lambda>a b. ?k b \<le> ?k a) (rev (sort_key ?k (rev xs)))"
    by (simp add: sorted_wrt_rev)
  moreover have "outranks = (\<lambda>a b. ?k b \<le> ?k a)"
    by (intro ext) (rule outranks_key)
  ultimately show ?thesis
    unfolding ranked_def sort_key_reverse_def by simp
qed


lemma ranked_slice_to: "ranked xs \<Longrightarrow> ranked (slice_to xs n)"
  by (simp add: ranked_def slice_to_def sorted_wrt_take)

lemma length_slice_to: "0 \<le> n \<Longrightarrow> length (slice_to xs n) \<le> nat n"
  by (simp add: slice_to_def)

lemma scores_save_scores: "scores (save_scores m) = scores m"
  by (simp add: save_scores_def)

lemma scores_add_score:
  "scores (snd (add_score m g n sc lv now)) =
     (case scores m g of
        None \<Rightarrow> scores m
      | Some entries \<Rightarrow> (scores m)(g \<mapsto>
          slice_to (sort_key_reverse (\<lambda>x. (score x, level x))
            (entries @ [\<lparr>name = n, score = sc, level = lv, timestamp = now, game = g\<rparr>])) 10))"
  by (simp add: add_score_def Let_def scores_save_scores split: option.splits)

text \<open>
  The list of the game that \<open>add_score\<close> writes to is ranked and capped whatever the
  store held before.
\<close>

lemma add_score_touched_list:
  assumes "scores m g = Some entries"
  shows "\<exists>kept. scores (snd (add_score m g n sc lv now)) g = Some kept
           \<and> ranked kept \<and> length kept \<le> 10"
  using assms ranked_slice_to [OF ranked_sort_key_reverse] length_slice_to [of 10]
  by (simp add: scores_add_score)

lemma store_ok_add_score:
  assumes "store_ok (scores m)"
  shows "store_ok (scores (snd (add_score m g n sc lv now)))"
proof (cases "scores m g")
  case None
  with assms show ?thesis by (simp add: scores_add_score)
next
  case (Some entries)
  from add_score_touched_list [OF Some, of n sc lv now]
  obtain kept where k: "scores (snd (add_score m g n sc lv now)) g = Some kept"
      "ranked kept" "length kept \<le> 10" by blast
  have other: "scores (snd (add_score m g n sc lv now)) h = scores m h" if "h \<noteq> g" for h
    using that Some by (simp add: scores_add_score)
  show ?thesis
    unfolding store_ok_def
  proof (intro allI impI)
    fix h es
    assume h: "scores (snd (add_score m g n sc lv now)) h = Some es"
    show "ranked es \<and> length es \<le> 10"
    proof (cases "h = g")
      case True
      with h k show ?thesis by simp
    next
      case False
      with h other assms show ?thesis by (simp add: store_ok_def)
    qed
  qed
qed

lemma store_ok_initial: "store_ok initial_scores"
  by (simp add: store_ok_def initial_scores_def ranked_def)

text \<open>A file that decodes replaces the three empty lists, whatever it holds.\<close>

lemma init_with_document:
  "ScoreboardManager_init (Document d) w =
     Inr \<lparr>scores = d, scores_json = Document d, writable = w\<rparr>"
  by (simp add: ScoreboardManager_init_def load_scores_def read_scores_file_def)

lemma add_score_other_lists:
  "h \<noteq> g \<Longrightarrow> scores (snd (add_score m g n sc lv now)) h = scores m h"
  by (simp add: scores_add_score split: option.splits)

lemma add_scores_store_ok:
  assumes "store_ok (scores m)"
  shows "\<forall>m' \<in> set (add_scores m calls). store_ok (scores m')"
  using assms
proof (induction calls arbitrary: m)
  case Nil
  show ?case by simp
next
  case (Cons c cs)
  obtain g n sc lv now where c: "c = (g, n, sc, lv, now)"
    by (cases c) auto
  let ?m' = "snd (add_score m g n sc lv now)"
  have ok: "store_ok (scores ?m')"
    using Cons.prems by (rule store_ok_add_score)
  from Cons.IH [OF ok] ok show ?case
    by (simp add: c Let_def)
qed

text \<open>
  Claim C1 as stated fails for the lists that a call does not touch: \<open>load_scores\<close>
  takes the lists of the file as they are, and \<open>add_score\<close> sorts and cuts only the list
  of its own game. After loading a file whose Color Blast list is out of order, a score
  added to Number Rush leaves the Color Blast list out of order.
\<close>

theorem unsorted_file_counterexample:
  "ScoreboardManager_init (Document unsorted_scores) True = Inr loaded_manager
   \<and> map score (the (scores (snd (add_score loaded_manager ''Number Rush'' ''Ada'' 500 3
                                   ''2024-01-01 10:00'')) ''Color Blast'')) = [100, 900]
   \<and> \<not> store_ok (scores (snd (add_score loaded_manager ''Number Rush'' ''Ada'' 500 3
                                   ''2024-01-01 10:00'')))"
proof -
  let ?m = "snd (add_score loaded_manager ''Number Rush'' ''Ada'' 500 3 ''2024-01-01 10:00'')"
  have init: "ScoreboardManager_init (Document unsorted_scores) True = Inr loaded_manager"
    by (simp add: init_with_document loaded_manager_def)
  have same: "scores ?m ''Color Blast'' = scores loaded_manager ''Color Blast''"
    by (rule add_score_other_lists) simp
  have list: "scores loaded_manager ''Color Blast'' =
      Some [\<lparr>name = ''Cy'', score = 100, level = 1, timestamp = ''2024-01-01 09:00'',
               game = ''Color Blast''\<rparr>,
            \<lparr>name = ''Di'', score = 900, level = 2, timestamp = ''2024-01-01 09:01'',
               game = ''Color Blast''\<rparr>]"
    by (simp add: loaded_manager_def unsorted_scores_def)
  have "\<not> ranked [\<lparr>name = ''Cy'', score = 100, level = 1, timestamp = ''2024-01-01 09:00'',
               game = ''Color Blast''\<rparr>,
            \<lparr>name = ''Di'', score = 900, level = 2, timestamp = ''2024-01-01 09:01'',
               game = ''Color Blast''\<rparr>]"
    by (simp add: ranked_def outranks_def)
  with same list have "\<not> store_ok (scores ?m)"
    unfolding store_ok_def by metis
  with init same list show ?thesis by simp
qed

text \<open>
  Claim C1, amended. After an \<open>add_score\<close> call for a game of the store, the list of
  that game is ranked by (score descending, level descending) and has at most ten
  entries, whatever the store held before, and the list of every other game is what it
  was. Hence from a store in which every list is ranked and has at most ten entries, as
  the store of \<open>__init__\<close> without a file is, every list of every game is ranked and has
  at most ten entries after each call of any sequence of \<open>add_score\<close> calls.
\<close>

theorem add_score_keeps_ranked_top10:
  "(scores m g \<noteq> None \<longrightarrow>
      (\<exists>kept. scores (snd (add_score m g n sc lv now)) g = Some kept
         \<and> ranked kept \<and> length kept \<le> 10))
   \<and> (\<forall>h. h \<noteq> g \<longrightarrow> scores (snd (add_score m g n sc lv now)) h = scores m h)
   \<and> (store_ok (scores m) \<longrightarrow> (\<forall>m' \<in> set (add_scores m calls). store_ok (scores m')))
   \<and> store_ok initial_scores"
  using add_score_touched_list [of m g _ n sc lv now] add_score_other_lists [of _ g m n sc lv now]
    add_scores_store_ok [of m calls] store_ok_initial
  by auto

theorem add_score_keeps_ranked_top10_witness:
  "scores loaded_manager ''Color Blast'' \<noteq> None
   \<and> map score (the (scores (snd (add_score loaded_manager ''Color Blast'' ''Ada'' 500 3
                                   ''2024-01-01 10:00'')) ''Color Blast'')) = [900, 500, 100]
   \<and> scores (snd (add_score loaded_manager ''Color Blast'' ''Ada'' 500 3 ''2024-01-01 10:00''))
        ''Number Rush'' = scores loaded_manager ''Number Rush''
   \<and> store_ok (scores fresh_manager)
   \<and> list_all (\<lambda>m'. store_ok (scores m')) (add_scores fresh_manager
        [(''Number Rush'', ''Ada'', 500, 3, ''2024-01-01 10:00''),
         (''Number Rush'', ''Bob'', 700, 1, ''2024-01-01 10:01'')])"
proof -
  have h: "store_ok (scores fresh_manager)"
    by (simp add: fresh_manager_def store_ok_initial)
  have a: "scores loaded_manager ''Color Blast'' \<noteq> None"
    by (simp add: loaded_manager_def unsorted_scores_def)
  have b: "map score (the (scores (snd (add_score loaded_manager ''Color Blast'' ''Ada'' 500 3
                                   ''2024-01-01 10:00'')) ''Color Blast'')) = [900, 500, 100]"
    by (simp add: loaded_manager_def unsorted_scores_def initial_scores_def add_score_def
          save_scores_def sort_key_reverse_def slice_to_def Let_def less_eq_prod_def)
  note one = add_score_keeps_ranked_top10 [of loaded_manager "''Color Blast''" "''Ada''" 500 3
      "''2024-01-01 10:00''" "[]"]
  note two = add_score_keeps_ranked_top10 [of fresh_manager "''Number Rush''" "''Ada''" 500 3
      "''2024-01-01 10:00''"
      "[(''Number Rush'', ''Ada'', 500, 3, ''2024-01-01 10:00''),
        (''Number Rush'', ''Bob'', 700, 1, ''2024-01-01 10:01'')]"]
  from one have c: "scores (snd (add_score loaded_manager ''Color Blast'' ''Ada'' 500 3
        ''2024-01-01 10:00'')) ''Number Rush'' = scores loaded_manager ''Number Rush''"
    by simp
  from two h have d: "list_all (\<lambda>m'. store_ok (scores m')) (add_scores fresh_manager
        [(''Number Rush'', ''Ada'', 500, 3, ''2024-01-01 10:00''),
         (''Number Rush'', ''Bob'', 700, 1, ''2024-01-01 10:01'')])"
    unfolding list_all_iff by blast
  from a b c d h show ?thesis by blast
qed

text \<open>
  Claim C7. When \<open>scores.json\<close> is missing, cannot be opened or does not decode,
  creating the manager raises nothing and each of the three titles maps to the empty
  list.
\<close>

theorem init_without_usable_file:
  assumes "\<forall>d. f \<noteq> Document d"
  shows "\<exists>m. ScoreboardManager_init f w = Inr m
           \<and> scores m ''Memory Match'' = Some []
           \<and> scores m ''Number Rush'' = Some []
           \<and> scores m ''Color Blast'' = Some []"
  using assms
  by (cases f)
     (simp_all add: ScoreboardManager_init_def load_scores_def read_scores_file_def
        initial_scores_def)

theorem init_without_usable_file_witness:
  "(\<forall>d. Undecodable \<noteq> Document d) \<and>
   (\<exists>m. ScoreboardManager_init Undecodable True = Inr m
           \<and> scores m ''Memory Match'' = Some []
           \<and> scores m ''Number Rush'' = Some []
           \<and> scores m ''Color Blast'' = Some [])"
  using init_without_usable_file [of Undecodable True] by simp



text \<open>
  Claim C10. \<open>add_score\<close> for a title that is not a key of the store returns \<open>False\<close>
  and changes neither the store nor the file; for a title that is a key it returns
  \<open>True\<close>.
\<close>

theorem add_score_unknown_game:
  "(scores m g = None \<longrightarrow> add_score m g n sc lv now = (False, m))
   \<and> (scores m g \<noteq> None \<longrightarrow> fst (add_score m g n sc lv now) = True)"
  by (auto simp: add_score_def Let_def)

theorem add_score_unknown_game_witness:
  "scores fresh_manager ''Chess'' = None
   \<and> add_score fresh_manager ''Chess'' ''Ada'' 5 1 ''2024-01-01 10:00'' = (False, fresh_manager)
   \<and> scores fresh_manager ''Color Blast'' \<noteq> None
   \<and> fst (add_score fresh_manager ''Color Blast'' ''Ada'' 5 1 ''2024-01-01 10:00'') = True"
  using add_score_unknown_game [of fresh_manager "''Chess''" "''Ada''" 5 1 "''2024-01-01 10:00''"]
        add_score_unknown_game [of fresh_manager "''Color Blast''" "''Ada''" 5 1 "''2024-01-01 10:00''"]
  by (simp add: fresh_manager_def initial_scores_def)

section \<open>Properties of float rounding\<close>

lemma halvings_numeral:
  "halvings (numeral k) x = (if x < 2 then 0 else 1 + halvings (pred_numeral k) (x / 2))"
  by (simp add: numeral_eq_Suc)

lemma doublings_numeral:
  "doublings (numeral k) x = (if 1 \<le> x then 0 else doublings (pred_numeral k) (2 * x) - 1)"
  by (simp add: numeral_eq_Suc)




lemma round_half_even_of_int: "round_half_even (of_int k) = k"
  by (simp add: round_half_even_def Let_def)


lemma halvings_eq: "2 ^ k \<le> a \<Longrightarrow> a < 2 ^ Suc k \<Longrightarrow> k \<le> n \<Longrightarrow> halvings n a = int k"
proof (induction n arbitrary: a k)
  case 0
  then show ?case by simp
next
  case (Suc n)
  show ?case
  proof (cases k)
    case 0
    with Suc.prems show ?thesis by simp
  next
    case (Suc j)
    have "(2::real) \<le> 2 * 2 ^ j" by simp
    moreover from Suc Suc.prems have "2 * 2 ^ j \<le> a" by simp
    ultimately have "\<not> a < 2" by linarith
    moreover from Suc Suc.prems have "2 ^ j \<le> a / 2" "a / 2 < 2 ^ Suc j" "j \<le> n"
      by simp_all
    ultimately show ?thesis
      using Suc.IH [of j "a / 2"] Suc by simp
  qed
qed











text \<open>Rounding at a known exponent, for the evaluation of concrete numbers.\<close>

lemma round64_at:
  assumes "0 < x" and "binade x = e" and "round_to (pow2 (e - 52)) x = r" and "r < 2 ^ 1024"
  shows "round64 x = Finite r"
  using assms by (simp add: round64_def Let_def)

lemma round64_5: "round64 5 = Finite 5"
proof (rule round64_at)
  show "binade 5 = 2" by (simp add: binade_def halvings_numeral)
  show "round_to (pow2 (2 - 52)) 5 = 5"
    by (simp add: round_to_def pow2_def round_half_even_def Let_def)
qed simp_all

lemma round64_2000: "round64 2000 = Finite 2000"
proof (rule round64_at)
  show "binade 2000 = 10" by (simp add: binade_def halvings_numeral)
  show "round_to (pow2 (10 - 52)) 2000 = 2000"
    by (simp add: round_to_def pow2_def round_half_even_def Let_def)
qed simp_all





section \<open>Properties of the ordered-click game\<close>

lemma index_of_Some: "index_of xs i = Some k \<Longrightarrow> k < length xs"
  by (auto simp: index_of_def Let_def split: if_splits)

lemma nr_cancel_timer_fields [simp]:
  "nr_players (nr_cancel_timer s) = nr_players s"
  "nr_current_player (nr_cancel_timer s) = nr_current_player s"
  "nr_num_players (nr_cancel_timer s) = nr_num_players s"
  "nr_game_active (nr_cancel_timer s) = nr_game_active s"
  "nr_current_level (nr_cancel_timer s) = nr_current_level s"
  "nr_start_time (nr_cancel_timer s) = nr_start_time s"
  "nr_scoreboard (nr_cancel_timer s) = nr_scoreboard s"
  by (simp_all add: nr_cancel_timer_def split: option.splits)

lemma nr_end_game_fields [simp]:
  "nr_players (nr_end_game now s) = nr_players s"
  "nr_current_player (nr_end_game now s) = nr_current_player s"
  "nr_num_players (nr_end_game now s) = nr_num_players s"
  "nr_game_active (nr_end_game now s) = False"
  "nr_current_level (nr_end_game now s) = nr_current_level s"
  by (simp_all add: nr_end_game_def Let_def)

lemma nr_next_player_fields [simp]:
  "nr_players (nr_next_player now s) = nr_players s"
  "nr_current_player (nr_next_player now s) = nr_current_player s + 1"
  "nr_num_players (nr_next_player now s) = nr_num_players s"
  "nr_current_level (nr_next_player now s) = nr_current_level s"
  by (simp_all add: nr_next_player_def Let_def)

lemma nr_update_timer_fields [simp]:
  "nr_players (nr_update_timer s) = nr_players s"
  "nr_current_player (nr_update_timer s) = nr_current_player s"
  "nr_num_players (nr_update_timer s) = nr_num_players s"
  "nr_game_active (nr_update_timer s) = nr_game_active s"
  by (simp_all add: nr_update_timer_def after_def)

lemma nr_create_game_grid_fields [simp]:
  "nr_players (nr_create_game_grid ns s) = nr_players s"
  "nr_current_player (nr_create_game_grid ns s) = nr_current_player s"
  "nr_num_players (nr_create_game_grid ns s) = nr_num_players s"
  "nr_game_active (nr_create_game_grid ns s) = nr_game_active s"
  "nr_start_time (nr_create_game_grid ns s) = nr_start_time s"
  "nr_parent (nr_create_game_grid ns s) = nr_parent s"
  by (simp_all add: nr_create_game_grid_def)








section \<open>Inactive rounds\<close>

text \<open>
  Claim C6. While \<open>game_active\<close> is false, a click on any number in the ordered-click
  game and an answer at any slot in the discrimination game return at once: nothing is
  raised and the whole state stays as it is.
\<close>

theorem inactive_input_ignored:
  "(\<not> nr_game_active s \<longrightarrow> nr_number_clicked num t now s = Ok s)
   \<and> (\<not> cb_game_active c \<longrightarrow> cb_check_answer idx c = Ok c)"
  by (simp add: nr_number_clicked_def cb_check_answer_def)

theorem inactive_input_ignored_witness:
  "\<not> nr_game_active nr_idle
   \<and> nr_number_clicked 1 105 ''2024-01-01 10:00'' nr_idle = Ok nr_idle
   \<and> \<not> cb_game_active cb_idle
   \<and> cb_check_answer 2 cb_idle = Ok cb_idle"
proof -
  have a: "\<not> nr_game_active nr_idle"
    by (simp add: nr_idle_def nr_back_to_menu_def)
  have b: "\<not> cb_game_active cb_idle"
    by (simp add: cb_idle_def cb_back_to_menu_def cb_cancel_timer_def split: option.splits)
  from inactive_input_ignored [of nr_idle 1 105 "''2024-01-01 10:00''" cb_idle 2] a b
  show ?thesis by simp
qed

text \<open>
  The timer callbacks of the two games that have the flag do nothing once it is false.
\<close>

lemma stale_timer_callbacks_ignored:
  "\<not> nr_game_active s \<Longrightarrow> nr_update_timer s = s"
  "\<not> cb_game_active c \<Longrightarrow> cb_countdown now c = Ok c"
  "\<not> cb_game_active c \<Longrightarrow> cb_new_question ans c = c"
  by (simp_all add: nr_update_timer_def cb_countdown_def cb_new_question_def)

section \<open>Properties of the matching game\<close>

text \<open>
  Claim C3. In the matching game at level \<open>L\<close>, a pair that matches adds one to the
  streak of the current player and awards \<open>10 * L * (1 + streak div 3)\<close> points, with the
  streak counted after the increment; a pair that does not match sets that streak to 0
  and awards nothing; no other player changes. At level 2 a match that brings the streak
  to 4 awards 40 points.
\<close>

theorem check_match_award:
  assumes "mm_flipped s = [i1, i2]"
      and "index_of (mm_cards s) i1 = Some k1" and "index_of (mm_cards s) i2 = Some k2"
      and "mm_main_canvas s"
      and "index_of (mm_players s) (mm_current_player s) = Some k"
  shows "\<exists>s'. mm_check_match s = Ok s' \<and>
          (if symbol (mm_cards s ! k1) = symbol (mm_cards s ! k2)
           then mmp_streak (mm_players s' ! k) = mmp_streak (mm_players s ! k) + 1
              \<and> mmp_score (mm_players s' ! k) =
                  mmp_score (mm_players s ! k)
                    + 10 * mm_current_level s * (1 + mmp_streak (mm_players s' ! k) div 3)
              \<and> (mm_current_level s = 2 \<and> mmp_streak (mm_players s' ! k) = 4 \<longrightarrow>
                   mmp_score (mm_players s' ! k) = mmp_score (mm_players s ! k) + 40)
           else mmp_streak (mm_players s' ! k) = 0
              \<and> mmp_score (mm_players s' ! k) = mmp_score (mm_players s ! k))
          \<and> (\<forall>j. j \<noteq> k \<longrightarrow> mm_players s' ! j = mm_players s ! j)"
proof -
  have k: "k < length (mm_players s)"
    using assms(5) by (rule index_of_Some)
  show ?thesis
    using assms k by (simp add: mm_check_match_def Let_def)
qed

theorem check_match_award_witness:
  "mm_flipped mm_sample = [0, 1]
   \<and> index_of (mm_cards mm_sample) 0 = Some 0 \<and> index_of (mm_cards mm_sample) 1 = Some 1
   \<and> mm_main_canvas mm_sample
   \<and> index_of (mm_players mm_sample) (mm_current_player mm_sample) = Some 0
   \<and> mm_current_level mm_sample = 2
   \<and> mmp_streak (mm_players mm_sample ! 0) = 3
   \<and> (\<exists>s'. mm_check_match mm_sample = Ok s'
          \<and> mmp_streak (mm_players s' ! 0) = 4
          \<and> mmp_score (mm_players s' ! 0) = mmp_score (mm_players mm_sample ! 0) + 40)"
proof -
  have a: "mm_flipped mm_sample = [0, 1]"
    and b: "index_of (mm_cards mm_sample) 0 = Some 0"
    and c: "index_of (mm_cards mm_sample) 1 = Some 1"
    and d: "mm_main_canvas mm_sample"
    and e: "index_of (mm_players mm_sample) (mm_current_player mm_sample) = Some 0"
    and f: "mm_current_level mm_sample = 2"
    and g: "mmp_streak (mm_players mm_sample ! 0) = 3"
    and h: "symbol (mm_cards mm_sample ! 0) = symbol (mm_cards mm_sample ! 1)"
    by (simp_all add: mm_sample_def MemoryMatchGame_init_def index_of_def)
  from check_match_award [OF a b c d e] h f g
  obtain s' where "mm_check_match mm_sample = Ok s'"
    "mmp_streak (mm_players s' ! 0) = 4"
    "mmp_score (mm_players s' ! 0) = mmp_score (mm_players mm_sample ! 0) + 40"
    by auto
  with a b c d e f g show ?thesis by blast
qed

text \<open>
  Claim C9, on the matching game. The class has no liveness flag. After
  \<open>back_to_menu\<close> has destroyed the widgets, a \<open>check_match\<close> that still fires for two
  open equal cards marks both cards matched and then raises \<open>TclError\<close>; and the
  \<open>flip_back\<close> that a mismatch scheduled is not cancelled by \<open>back_to_menu\<close>, stays in
  the queue, and when it fires turns a card back and raises \<open>TclError\<close>.
\<close>

theorem stale_callbacks_after_teardown:
  "\<not> mm_main_canvas mm_left \<and> mm_check_id mm_left = None \<and> pending (mm_parent mm_left) = []
   \<and> map card_matched (mm_cards mm_left) = [False, False, False, False]
   \<and> mm_matched mm_left = []
   \<and> (\<exists>s'. mm_check_match mm_left = Raised TclError s'
          \<and> map card_matched (mm_cards s') = [True, True, False, False]
          \<and> mm_matched s' = [0, 1])
   \<and> \<not> mm_main_canvas mm_left_early
   \<and> pending (mm_parent mm_left_early) = [(2, Flip_back 1 2)]
   \<and> map card_flipped (mm_cards mm_left_early) = [False, True, True, False]
   \<and> (\<exists>s'. mm_flip_back 1 2 mm_left_early = Raised TclError s'
          \<and> map card_flipped (mm_cards s') = [False, False, True, False])"
  by (simp add: mm_left_def mm_left_early_def mm_mismatch_def mm_back_to_menu_def
        mm_cancel_check_def mm_sample_def MemoryMatchGame_init_def new_tk_def after_cancel_def
        after_def mm_check_match_def mm_flip_back_def index_of_def Let_def)

section \<open>Saving the results of a session\<close>

lemma nr_save_scores_filter:
  "nr_save_scores now lv ps sb =
     foldl (\<lambda>b p. snd (add_score b ''Number Rush'' (nrp_name p) (nrp_score p) lv now)) sb
       (filter nrp_completed ps)"
  by (induction ps arbitrary: sb) simp_all

lemma cb_save_scores_filter:
  "cb_save_scores now lv ps sb =
     foldl (\<lambda>b p. snd (add_score b ''Color Blast'' (cbp_name p) (cbp_score p) lv now)) sb
       (filter cbp_completed ps)"
  by (induction ps arbitrary: sb) simp_all

lemma mm_save_scores_all:
  "mm_save_scores now lv ps sb =
     foldl (\<lambda>b p. snd (add_score b ''Memory Match'' (mmp_name p) (mmp_score p) lv now)) sb ps"
  by (induction ps arbitrary: sb) simp_all

lemma cb_cancel_timer_fields [simp]:
  "cb_players (cb_cancel_timer s) = cb_players s"
  "cb_current_player (cb_cancel_timer s) = cb_current_player s"
  "cb_num_players (cb_cancel_timer s) = cb_num_players s"
  "cb_game_active (cb_cancel_timer s) = cb_game_active s"
  "cb_current_level (cb_cancel_timer s) = cb_current_level s"
  "cb_scoreboard (cb_cancel_timer s) = cb_scoreboard s"
  by (simp_all add: cb_cancel_timer_def split: option.splits)

text \<open>
  Claim C5 as stated fails for the matching game, whose players have no completed flag:
  \<open>save_results\<close> stores an entry for every player of the roster, here also for the
  second player, who matched nothing and scored nothing.
\<close>

theorem save_results_counterexample:
  "mmp_matches (mm_players mm_sample ! 1) = 0 \<and> mmp_score (mm_players mm_sample ! 1) = 0
   \<and> map name (the (scores (mm_scoreboard (mm_save_results ''2024-01-01 10:00'' mm_sample))
                     ''Memory Match'')) = [''Ada'', ''Bob'']"
  by (simp add: mm_sample_def MemoryMatchGame_init_def mm_save_results_def fresh_manager_def
        initial_scores_def add_score_def save_scores_def sort_key_reverse_def slice_to_def
        Let_def less_eq_prod_def)

text \<open>
  Claim C5, amended. Ending a session of the ordered-click or of the discrimination game
  calls \<open>add_score\<close> once for each player whose completed flag is true, in roster order,
  and for no other player: at most one call per player, and none at all (the scoreboard
  stays as it is) when no player completed. Ending a session of the matching game calls
  \<open>add_score\<close> once for every player of the roster.
\<close>

theorem finalize_emits:
  "nr_scoreboard (nr_end_game now s) =
     foldl (\<lambda>b p. snd (add_score b ''Number Rush'' (nrp_name p) (nrp_score p)
                          (nr_current_level s) now))
       (nr_scoreboard s) (filter nrp_completed (nr_players s))
   \<and> cb_scoreboard (cb_end_game now c) =
     foldl (\<lambda>b p. snd (add_score b ''Color Blast'' (cbp_name p) (cbp_score p)
                          (cb_current_level c) now))
       (cb_scoreboard c) (filter cbp_completed (cb_players c))
   \<and> mm_scoreboard (mm_save_results now m) =
     foldl (\<lambda>b p. snd (add_score b ''Memory Match'' (mmp_name p) (mmp_score p)
                          (mm_current_level m) now))
       (mm_scoreboard m) (mm_players m)
   \<and> length (filter nrp_completed (nr_players s)) \<le> length (nr_players s)
   \<and> length (filter cbp_completed (cb_players c)) \<le> length (cb_players c)
   \<and> (filter nrp_completed (nr_players s) = [] \<longrightarrow>
        nr_scoreboard (nr_end_game now s) = nr_scoreboard s)
   \<and> (filter cbp_completed (cb_players c) = [] \<longrightarrow>
        cb_scoreboard (cb_end_game now c) = cb_scoreboard c)"
  by (simp add: nr_end_game_def cb_end_game_def mm_save_results_def Let_def
        nr_save_scores_filter cb_save_scores_filter mm_save_scores_all)

theorem finalize_emits_witness:
  "map nrp_completed (nr_players nr_sample_done) = [True, False]
   \<and> map name (the (scores (nr_scoreboard (nr_end_game ''2024-01-01 10:00'' nr_sample_done))
                     ''Number Rush'')) = [''Ada'']
   \<and> filter cbp_completed (cb_players cb_sample) = []
   \<and> cb_scoreboard (cb_end_game ''2024-01-01 10:00'' cb_sample) = cb_scoreboard cb_sample
   \<and> map name (the (scores (mm_scoreboard (mm_save_results ''2024-01-01 10:00'' mm_sample))
                     ''Memory Match'')) = [''Ada'', ''Bob'']"
  using finalize_emits [of "''2024-01-01 10:00''" nr_sample_done cb_sample mm_sample]
  by (simp add: nr_sample_done_def nr_sample_def NumberRushGame_init_def nr_round_complete_def
        nr_cancel_timer_def nr_next_player_def index_of_def py_int_def float_div_def
        float_sub_def round64_5 round64_2000 cb_sample_def
        ColorBlastGame_init_def mm_sample_def MemoryMatchGame_init_def fresh_manager_def
        initial_scores_def add_score_def save_scores_def sort_key_reverse_def slice_to_def
        Let_def less_eq_prod_def)

section \<open>The index of the current player\<close>

lemma nr_round_complete_player:
  "nr_current_player s \<le> nr_current_player (state_of (nr_round_complete t now s))"
  by (simp add: nr_round_complete_def Let_def split: option.splits sum.splits)

lemma nr_next_player_ok:
  "nr_num_players s = int (length (nr_players s)) \<Longrightarrow> 0 \<le> nr_current_player s \<Longrightarrow>
   \<not> nr_game_active s \<Longrightarrow> nr_session_ok (nr_next_player now s)"
  by (simp add: nr_session_ok_def nr_next_player_def Let_def)

lemma nr_round_complete_ok:
  assumes "nr_session_ok s"
  shows "nr_session_ok (state_of (nr_round_complete t now s))"
proof -
  let ?s1 = "nr_cancel_timer (s\<lparr>nr_game_active := False\<rparr>)"
  have s1: "nr_num_players ?s1 = int (length (nr_players ?s1))" "0 \<le> nr_current_player ?s1"
    "\<not> nr_game_active ?s1"
    using assms by (simp_all add: nr_session_ok_def)
  have a: "nr_session_ok ?s1"
    using s1 by (simp add: nr_session_ok_def)
  have b: "nr_session_ok (?s1\<lparr>nr_players := (nr_players ?s1)[k := p]\<rparr>)" for k p
    using s1 by (simp add: nr_session_ok_def)
  have c: "nr_session_ok (nr_next_player now (?s1\<lparr>nr_players := (nr_players ?s1)[k := p]\<rparr>))"
    for k p
    using s1 by (intro nr_next_player_ok) simp_all
  have d: "nr_session_ok (nr_next_player now ?s1)"
    using s1 by (intro nr_next_player_ok)
  show ?thesis
    using a b c d
    by (simp add: nr_round_complete_def Let_def split: option.splits sum.splits)
qed

lemma nr_start_round_player:
  "nr_current_player s \<le> nr_current_player (state_of (nr_start_round t numbers now s))"
proof (induction t numbers now s rule: nr_start_round.induct)
  case (1 t numbers now s)
  show ?case
  proof (cases "int (length (nr_players s)) \<le> nr_current_player s")
    case True
    then show ?thesis by (subst nr_start_round.simps) simp
  next
    case False
    show ?thesis
    proof (cases "index_of (nr_players s) (nr_current_player s)")
      case None
      with False show ?thesis by (subst nr_start_round.simps) simp
    next
      case (Some k)
      show ?thesis
      proof (cases "nrp_completed (nr_players s ! k)")
        case True
        from "1.IH" [OF False Some True] False Some True show ?thesis
          by (subst nr_start_round.simps) simp
      next
        case notdone: False
        with False Some show ?thesis by (subst nr_start_round.simps) simp
      qed
    qed
  qed
qed

lemma nr_start_round_ok:
  "nr_num_players s = int (length (nr_players s)) \<Longrightarrow> 0 \<le> nr_current_player s \<Longrightarrow>
   nr_session_ok (state_of (nr_start_round t numbers now s))"
proof (induction t numbers now s rule: nr_start_round.induct)
  case (1 t numbers now s)
  show ?case
  proof (cases "int (length (nr_players s)) \<le> nr_current_player s")
    case True
    with "1.prems" show ?thesis
      by (subst nr_start_round.simps) (simp add: nr_session_ok_def)
  next
    case False
    show ?thesis
    proof (cases "index_of (nr_players s) (nr_current_player s)")
      case None
      with False "1.prems" show ?thesis
        by (subst nr_start_round.simps) (simp add: nr_session_ok_def)
    next
      case (Some k)
      show ?thesis
      proof (cases "nrp_completed (nr_players s ! k)")
        case True
        have "nr_session_ok (state_of (nr_start_round t numbers now
                (s\<lparr>nr_current_player := nr_current_player s + 1\<rparr>)))"
          using "1.prems" by (intro "1.IH" [OF False Some True]) simp_all
        with False Some True show ?thesis
          by (subst nr_start_round.simps) simp
      next
        case notdone: False
        with False Some "1.prems" show ?thesis
          by (subst nr_start_round.simps) (simp add: nr_session_ok_def)
      qed
    qed
  qed
qed

lemma nr_step_player: "nr_current_player s \<le> nr_current_player (state_of (nr_step e s))"
proof (cases e)
  case (NR_start_round t numbers now)
  then show ?thesis by (simp add: nr_start_round_player)
next
  case (NR_number_clicked num t now)
  have "nr_current_player s \<le> nr_current_player (state_of (nr_round_complete t now
          (s\<lparr>nr_buttons := bs, nr_current_number := n\<rparr>)))" for bs n
    using nr_round_complete_player [of "s\<lparr>nr_buttons := bs, nr_current_number := n\<rparr>" t now]
    by simp
  with NR_number_clicked show ?thesis
    by (simp add: nr_number_clicked_def Let_def)
next
  case (NR_update_timer i)
  then show ?thesis by simp
next
  case NR_back_to_menu
  then show ?thesis by (simp add: nr_back_to_menu_def)
next
  case NR_destroy
  then show ?thesis by (simp add: nr_destroy_def)
qed

lemma nr_step_ok:
  assumes "nr_session_ok s"
  shows "nr_session_ok (state_of (nr_step e s))"
proof (cases e)
  case (NR_start_round t numbers now)
  from assms have "nr_num_players s = int (length (nr_players s))" "0 \<le> nr_current_player s"
    by (simp_all add: nr_session_ok_def)
  then have "nr_session_ok (state_of (nr_start_round t numbers now s))"
    by (rule nr_start_round_ok)
  with NR_start_round show ?thesis by simp
next
  case (NR_number_clicked num t now)
  have "nr_session_ok (s\<lparr>nr_buttons := bs, nr_current_number := n\<rparr>)" for bs n
    using assms by (auto simp: nr_session_ok_def)
  with NR_number_clicked assms show ?thesis
    by (simp add: nr_number_clicked_def Let_def nr_round_complete_ok)
next
  case (NR_update_timer i)
  with assms show ?thesis by (auto simp: nr_session_ok_def)
next
  case NR_back_to_menu
  with assms show ?thesis by (auto simp: nr_back_to_menu_def nr_session_ok_def)
next
  case NR_destroy
  with assms show ?thesis by (auto simp: nr_destroy_def nr_session_ok_def)
qed

lemma nr_run_player:
  "x \<in> set (nr_run es s) \<Longrightarrow> nr_current_player s \<le> nr_current_player x"
proof (induction es arbitrary: s)
  case Nil
  then show ?case by simp
next
  case (Cons e es)
  from Cons.prems consider "x = s" | "x \<in> set (nr_run es (state_of (nr_step e s)))"
    by auto
  then show ?case
  proof cases
    case 1
    then show ?thesis by simp
  next
    case 2
    from Cons.IH [OF 2] nr_step_player [of s e] show ?thesis by linarith
  qed
qed

lemma nr_run_sorted: "sorted (map nr_current_player (nr_run es s))"
proof (induction es arbitrary: s)
  case Nil
  show ?case by simp
next
  case (Cons e es)
  have "nr_current_player s \<le> nr_current_player x"
    if "x \<in> set (nr_run es (state_of (nr_step e s)))" for x
    using nr_run_player [OF that] nr_step_player [of s e] by linarith
  with Cons.IH show ?case by auto
qed

lemma nr_run_ok: "nr_session_ok s \<Longrightarrow> x \<in> set (nr_run es s) \<Longrightarrow> nr_session_ok x"
proof (induction es arbitrary: s)
  case Nil
  then show ?case by simp
next
  case (Cons e es)
  from Cons.prems(2) consider "x = s" | "x \<in> set (nr_run es (state_of (nr_step e s)))"
    by auto
  then show ?case
  proof cases
    case 1
    with Cons.prems show ?thesis by simp
  next
    case 2
    from Cons.IH [OF nr_step_ok [OF Cons.prems(1)] 2] show ?thesis .
  qed
qed

lemma nr_start_game_ok:
  "nr_session_ok (state_of (nr_start_game names lv t numbers now (NumberRushGame_init tk sb)))"
proof (cases "NR_LEVELS lv")
  case None
  then show ?thesis
    by (simp add: nr_start_game_def Let_def nr_session_ok_def NumberRushGame_init_def)
next
  case (Some cfg)
  obtain n tm where cfg: "cfg = (n, tm)" by (cases cfg)
  show ?thesis
    using Some cfg
    by (simp add: nr_start_game_def Let_def NumberRushGame_init_def nr_start_round_ok)
qed

lemma cb_end_game_fields [simp]:
  "cb_players (cb_end_game now s) = cb_players s"
  "cb_current_player (cb_end_game now s) = cb_current_player s"
  "cb_num_players (cb_end_game now s) = cb_num_players s"
  "cb_game_active (cb_end_game now s) = False"
  by (simp_all add: cb_end_game_def Let_def)

lemma cb_new_question_fields [simp]:
  "cb_players (cb_new_question ans s) = cb_players s"
  "cb_current_player (cb_new_question ans s) = cb_current_player s"
  "cb_num_players (cb_new_question ans s) = cb_num_players s"
  "cb_game_active (cb_new_question ans s) = cb_game_active s"
  by (simp_all add: cb_new_question_def)

lemma cb_round_over_player:
  "cb_current_player s \<le> cb_current_player (state_of (cb_round_over now s))"
  by (simp add: cb_round_over_def Let_def split: option.splits)

lemma cb_round_over_ok:
  "cb_num_players s = int (length (cb_players s)) \<Longrightarrow> 0 \<le> cb_current_player s \<Longrightarrow>
   cb_session_ok (state_of (cb_round_over now s))"
  by (simp add: cb_round_over_def Let_def cb_session_ok_def split: option.splits)

lemma cb_countdown_player:
  "cb_current_player s \<le> cb_current_player (state_of (cb_countdown now s))"
  by (simp add: cb_countdown_def after_def cb_round_over_player)

lemma cb_countdown_ok:
  assumes "cb_session_ok s"
  shows "cb_session_ok (state_of (cb_countdown now s))"
proof -
  from assms have a: "cb_num_players s = int (length (cb_players s))" "0 \<le> cb_current_player s"
    by (simp_all add: cb_session_ok_def)
  have ro: "cb_session_ok (state_of (cb_round_over now s))"
    using a by (rule cb_round_over_ok)
  have tick: "cb_session_ok (s\<lparr>cb_time_left := tl, cb_parent := tk, cb_timer_id := i\<rparr>)" for tl tk i
    using assms by (auto simp: cb_session_ok_def)
  show ?thesis
    using assms ro tick by (simp add: cb_countdown_def after_def)
qed

lemma cb_check_answer_player:
  "cb_current_player (state_of (cb_check_answer idx s)) = cb_current_player s"
  by (simp add: cb_check_answer_def Let_def)

lemma cb_check_answer_ok:
  "cb_session_ok s \<Longrightarrow> cb_session_ok (state_of (cb_check_answer idx s))"
  by (auto simp: cb_check_answer_def Let_def cb_session_ok_def)

lemma cb_start_round_player:
  "cb_current_player s \<le> cb_current_player (state_of (cb_start_round ans now s))"
proof (induction ans now s rule: cb_start_round.induct)
  case (1 ans now s)
  show ?case
  proof (cases "int (length (cb_players s)) \<le> cb_current_player s")
    case True
    then show ?thesis by (subst cb_start_round.simps) simp
  next
    case False
    show ?thesis
    proof (cases "index_of (cb_players s) (cb_current_player s)")
      case None
      with False show ?thesis by (subst cb_start_round.simps) simp
    next
      case (Some k)
      show ?thesis
      proof (cases "cbp_completed (cb_players s ! k)")
        case True
        from "1.IH" [OF False Some True] False Some True show ?thesis
          by (subst cb_start_round.simps) simp
      next
        case notdone: False
        have "cb_current_player s \<le> cb_current_player (state_of (cb_countdown now
                (cb_new_question ans (s\<lparr>cb_score := 0, cb_time_left := tm,
                   cb_game_active := True\<rparr>))))" for tm
          using cb_countdown_player [of "cb_new_question ans (s\<lparr>cb_score := 0,
                   cb_time_left := tm, cb_game_active := True\<rparr>)" now]
          by simp
        with False Some notdone show ?thesis
          by (subst cb_start_round.simps) (simp split: option.splits)
      qed
    qed
  qed
qed

lemma cb_start_round_ok:
  "cb_num_players s = int (length (cb_players s)) \<Longrightarrow> 0 \<le> cb_current_player s \<Longrightarrow>
   cb_session_ok (state_of (cb_start_round ans now s))"
proof (induction ans now s rule: cb_start_round.induct)
  case (1 ans now s)
  show ?case
  proof (cases "int (length (cb_players s)) \<le> cb_current_player s")
    case True
    with "1.prems" show ?thesis
      by (subst cb_start_round.simps) (simp add: cb_session_ok_def)
  next
    case False
    show ?thesis
    proof (cases "index_of (cb_players s) (cb_current_player s)")
      case None
      with False "1.prems" show ?thesis
        by (subst cb_start_round.simps) (simp add: cb_session_ok_def)
    next
      case (Some k)
      show ?thesis
      proof (cases "cbp_completed (cb_players s ! k)")
        case True
        have "cb_session_ok (state_of (cb_start_round ans now
                (s\<lparr>cb_current_player := cb_current_player s + 1\<rparr>)))"
          using "1.prems" by (intro "1.IH" [OF False Some True]) simp_all
        with False Some True show ?thesis
          by (subst cb_start_round.simps) simp
      next
        case notdone: False
        show ?thesis
        proof (cases "CB_LEVELS (cb_current_level s)")
          case None
          have "cb_session_ok (s\<lparr>cb_score := 0\<rparr>)"
            using False "1.prems" by (simp add: cb_session_ok_def)
          with False Some notdone None show ?thesis
            by (subst cb_start_round.simps) simp
        next
          case cfg: (Some cfg)
          obtain tm target where c: "cfg = (tm, target)" by (cases cfg)
          have "cb_session_ok (cb_new_question ans
                  (s\<lparr>cb_score := 0, cb_time_left := tm, cb_game_active := True\<rparr>))"
            using False "1.prems" by (simp add: cb_session_ok_def)
          then have "cb_session_ok (state_of (cb_countdown now (cb_new_question ans
                  (s\<lparr>cb_score := 0, cb_time_left := tm, cb_game_active := True\<rparr>))))"
            by (rule cb_countdown_ok)
          with False Some notdone cfg c show ?thesis
            by (subst cb_start_round.simps) simp
        qed
      qed
    qed
  qed
qed

lemma cb_step_player: "cb_current_player s \<le> cb_current_player (state_of (cb_step e s))"
proof (cases e)
  case (CB_start_round ans now)
  then show ?thesis by (simp add: cb_start_round_player)
next
  case (CB_check_answer idx)
  then show ?thesis by (simp add: cb_check_answer_player)
next
  case (CB_countdown i now)
  then show ?thesis
    using cb_countdown_player [of "s\<lparr>cb_parent := after_cancel i (cb_parent s)\<rparr>" now]
    by simp
next
  case (CB_new_question i ans)
  then show ?thesis by simp
next
  case CB_back_to_menu
  then show ?thesis by (simp add: cb_back_to_menu_def)
next
  case CB_destroy
  then show ?thesis by (simp add: cb_destroy_def)
qed

lemma cb_step_ok:
  assumes "cb_session_ok s"
  shows "cb_session_ok (state_of (cb_step e s))"
proof (cases e)
  case (CB_start_round ans now)
  from assms have "cb_num_players s = int (length (cb_players s))" "0 \<le> cb_current_player s"
    by (simp_all add: cb_session_ok_def)
  then have "cb_session_ok (state_of (cb_start_round ans now s))"
    by (rule cb_start_round_ok)
  with CB_start_round show ?thesis by simp
next
  case (CB_check_answer idx)
  with assms show ?thesis by (simp add: cb_check_answer_ok)
next
  case (CB_countdown i now)
  have "cb_session_ok (s\<lparr>cb_parent := after_cancel i (cb_parent s)\<rparr>)"
    using assms by (auto simp: cb_session_ok_def)
  with CB_countdown show ?thesis by (simp add: cb_countdown_ok)
next
  case (CB_new_question i ans)
  with assms show ?thesis by (auto simp: cb_session_ok_def)
next
  case CB_back_to_menu
  with assms show ?thesis by (auto simp: cb_back_to_menu_def cb_session_ok_def)
next
  case CB_destroy
  with assms show ?thesis by (auto simp: cb_destroy_def cb_session_ok_def)
qed

lemma cb_run_player:
  "x \<in> set (cb_run es s) \<Longrightarrow> cb_current_player s \<le> cb_current_player x"
proof (induction es arbitrary: s)
  case Nil
  then show ?case by simp
next
  case (Cons e es)
  from Cons.prems consider "x = s" | "x \<in> set (cb_run es (state_of (cb_step e s)))"
    by auto
  then show ?case
  proof cases
    case 1
    then show ?thesis by simp
  next
    case 2
    from Cons.IH [OF 2] cb_step_player [of s e] show ?thesis by linarith
  qed
qed

lemma cb_run_sorted: "sorted (map cb_current_player (cb_run es s))"
proof (induction es arbitrary: s)
  case Nil
  show ?case by simp
next
  case (Cons e es)
  have "cb_current_player s \<le> cb_current_player x"
    if "x \<in> set (cb_run es (state_of (cb_step e s)))" for x
    using cb_run_player [OF that] cb_step_player [of s e] by linarith
  with Cons.IH show ?case by auto
qed

lemma cb_run_ok: "cb_session_ok s \<Longrightarrow> x \<in> set (cb_run es s) \<Longrightarrow> cb_session_ok x"
proof (induction es arbitrary: s)
  case Nil
  then show ?case by simp
next
  case (Cons e es)
  from Cons.prems(2) consider "x = s" | "x \<in> set (cb_run es (state_of (cb_step e s)))"
    by auto
  then show ?case
  proof cases
    case 1
    with Cons.prems show ?thesis by simp
  next
    case 2
    from Cons.IH [OF cb_step_ok [OF Cons.prems(1)] 2] show ?thesis .
  qed
qed

lemma cb_start_game_ok:
  "cb_session_ok (state_of (cb_start_game names lv ans now (ColorBlastGame_init tk sb)))"
proof (cases "CB_LEVELS lv")
  case None
  then show ?thesis
    by (simp add: cb_start_game_def Let_def cb_session_ok_def ColorBlastGame_init_def)
next
  case (Some cfg)
  obtain tm target where cfg: "cfg = (tm, target)" by (cases cfg)
  show ?thesis
    using Some cfg
    by (simp add: cb_start_game_def Let_def ColorBlastGame_init_def cb_start_round_ok)
qed

lemma mm_check_match_player:
  assumes "0 \<le> mm_current_player m" and "mm_current_player m < mm_num_players m"
  shows "0 \<le> mm_current_player (state_of (mm_check_match m))
       \<and> mm_current_player (state_of (mm_check_match m)) < mm_num_players m
       \<and> mm_num_players (state_of (mm_check_match m)) = mm_num_players m"
  using assms
  by (simp add: mm_check_match_def Let_def
        split: list.splits option.splits prod.splits)

lemma mm_start_level_player:
  "mm_current_player (state_of (mm_start_level symbols m)) = 0"
  by (simp add: mm_start_level_def Let_def)

lemma nr_trace:
  "map (\<lambda>s. (nr_current_player s, nr_num_players s, nr_game_active s))
     (nr_run nr_session_events nr_session_start) =
   replicate 15 (0, 1, True) @ [(1, 1, False)]"
  by (simp add: nr_session_events_def nr_session_start_def nr_start_game_def NR_LEVELS_def
        NumberRushGame_init_def nr_start_round.simps index_of_def nr_number_clicked_def
        nr_round_complete_def nr_next_player_def nr_end_game_def nr_cancel_timer_def
        nr_update_timer_def nr_create_game_grid_def after_def after_cancel_def new_tk_def
        Let_def py_int_def float_div_def float_sub_def round64_5 round64_2000 numeral_eq_Suc)

lemma cb_trace:
  "map (\<lambda>s. (cb_current_player s, cb_num_players s, cb_game_active s))
     (cb_run cb_session_events cb_session_start) =
   replicate 25 (0, 1, True) @ [(1, 1, False)]"
  by (simp add: cb_session_events_def cb_session_start_def cb_start_game_def CB_LEVELS_def
        ColorBlastGame_init_def cb_start_round.simps index_of_def cb_countdown_def
        cb_round_over_def cb_end_game_def cb_cancel_timer_def cb_new_question_def
        after_def after_cancel_def new_tk_def Let_def numeral_eq_Suc)

text \<open>
  Claim C4 as stated fails for the matching game: with two players, a mismatch of the
  second player hands the turn back to the first, so the index goes from 1 to 0.
\<close>

theorem rotation_counterexample:
  "mm_current_player mm_mismatch = 1
   \<and> mm_current_player (state_of (mm_check_match mm_mismatch)) = 0"
  by (simp add: mm_mismatch_def mm_sample_def MemoryMatchGame_init_def
        mm_check_match_def index_of_def Let_def)

lemma mm_check_match_turn:
  assumes "mm_flipped m = [i1, i2]"
      and "index_of (mm_cards m) i1 = Some k1" and "index_of (mm_cards m) i2 = Some k2"
      and "mm_main_canvas m"
      and "index_of (mm_players m) (mm_current_player m) = Some k"
  shows "mm_current_player (state_of (mm_check_match m)) =
     (if symbol (mm_cards m ! k1) = symbol (mm_cards m ! k2) then mm_current_player m
      else if 1 < mm_num_players m then (mm_current_player m + 1) mod mm_num_players m
      else mm_current_player m)"
  using assms by (simp add: mm_check_match_def Let_def)

lemma mm_check_match_stay_or_next:
  "mm_current_player (state_of (mm_check_match m)) = mm_current_player m
   \<or> mm_current_player (state_of (mm_check_match m))
       = (mm_current_player m + 1) mod mm_num_players m"
  by (simp add: mm_check_match_def Let_def split: list.splits option.splits prod.splits)

lemma mm_check_match_ok: "mm_turn_ok m \<Longrightarrow> mm_turn_ok (state_of (mm_check_match m))"
  using mm_check_match_player [of m] by (simp add: mm_turn_ok_def)

lemma mm_flip_card_ok: "mm_turn_ok m \<Longrightarrow> mm_turn_ok (state_of (mm_flip_card idx m))"
  by (simp add: mm_flip_card_def mm_turn_ok_def Let_def after_def split: option.splits)

lemma mm_flip_back_loop_ok:
  "mm_turn_ok m \<Longrightarrow> mm_turn_ok (state_of (mm_flip_back_loop is m))"
proof (induction "is" arbitrary: m)
  case Nil
  then show ?case by simp
next
  case (Cons i "is")
  have upd: "mm_turn_ok (m\<lparr>mm_cards := cs\<rparr>)" for cs
    using Cons.prems by (simp add: mm_turn_ok_def)
  from Cons.IH [OF Cons.prems] Cons.IH [OF upd] Cons.prems upd show ?case
    by (simp add: Let_def split: option.splits)
qed

lemma mm_start_level_ok:
  "0 < mm_num_players m \<Longrightarrow> mm_turn_ok (state_of (mm_start_level symbols m))"
  by (simp add: mm_start_level_def mm_turn_ok_def Let_def)

lemma mm_level_complete_ok:
  assumes "mm_turn_ok m"
  shows "mm_turn_ok (state_of (mm_level_complete continue symbols now m))"
proof -
  have a: "mm_turn_ok (m\<lparr>mm_players := ps\<rparr>)" for ps
    using assms by (simp add: mm_turn_ok_def)
  have b: "mm_turn_ok (mm_save_results now (m\<lparr>mm_players := ps\<rparr>))" for ps
    using assms by (simp add: mm_turn_ok_def mm_save_results_def)
  have c: "mm_turn_ok (m\<lparr>mm_players := ps, mm_current_level := l\<rparr>)" for ps l
    using assms by (simp add: mm_turn_ok_def)
  have d: "mm_turn_ok (state_of (mm_start_level symbols
             (m\<lparr>mm_players := ps, mm_current_level := l, mm_grid_size := g,
                mm_total_pairs := p\<rparr>)))" for ps l g p
    using assms by (intro mm_start_level_ok) (simp add: mm_turn_ok_def)
  show ?thesis
    using assms a b c d
    by (simp add: mm_level_complete_def Let_def split: option.splits prod.splits)
qed

lemma mm_step_ok:
  assumes "mm_turn_ok m"
  shows "mm_turn_ok (state_of (mm_step e m))"
proof (cases e)
  case (MM_flip_card idx)
  with assms show ?thesis by (simp add: mm_flip_card_ok)
next
  case (MM_check_match i)
  have "mm_turn_ok (m\<lparr>mm_parent := after_cancel i (mm_parent m)\<rparr>)"
    using assms by (simp add: mm_turn_ok_def)
  with MM_check_match show ?thesis by (simp add: mm_check_match_ok)
next
  case (MM_flip_back i idx1 idx2)
  have "mm_turn_ok (m\<lparr>mm_parent := after_cancel i (mm_parent m)\<rparr>)"
    using assms by (simp add: mm_turn_ok_def)
  then have "mm_turn_ok (state_of (mm_flip_back_loop [idx1, idx2]
                (m\<lparr>mm_parent := after_cancel i (mm_parent m)\<rparr>)))"
    by (rule mm_flip_back_loop_ok)
  with MM_flip_back show ?thesis
    by (simp add: mm_flip_back_def del: mm_flip_back_loop.simps)
next
  case (MM_level_complete i continue symbols now)
  have "mm_turn_ok (m\<lparr>mm_parent := after_cancel i (mm_parent m)\<rparr>)"
    using assms by (simp add: mm_turn_ok_def)
  with MM_level_complete show ?thesis by (simp add: mm_level_complete_ok)
next
  case (MM_start_level symbols)
  from assms have "0 < mm_num_players m" by (simp add: mm_turn_ok_def)
  with MM_start_level show ?thesis by (simp add: mm_start_level_ok)
next
  case MM_back_to_menu
  with assms show ?thesis
    by (simp add: mm_back_to_menu_def mm_cancel_check_def mm_turn_ok_def split: option.splits)
next
  case MM_destroy
  with assms show ?thesis
    by (simp add: mm_destroy_def mm_cancel_check_def mm_turn_ok_def split: option.splits)
qed

lemma mm_run_ok: "mm_turn_ok m \<Longrightarrow> x \<in> set (mm_run es m) \<Longrightarrow> mm_turn_ok x"
proof (induction es arbitrary: m)
  case Nil
  then show ?case by simp
next
  case (Cons e es)
  from Cons.prems(2) consider "x = m" | "x \<in> set (mm_run es (state_of (mm_step e m)))"
    by auto
  then show ?case
  proof cases
    case 1
    with Cons.prems show ?thesis by simp
  next
    case 2
    from Cons.IH [OF mm_step_ok [OF Cons.prems(1)] 2] show ?thesis .
  qed
qed

lemma mm_start_game_ok:
  assumes "names \<noteq> []"
  shows "mm_turn_ok (state_of (mm_start_game names lv symbols (MemoryMatchGame_init tk sb)))"
proof (cases "MM_LEVELS lv")
  case None
  with assms show ?thesis
    by (simp add: mm_start_game_def Let_def mm_turn_ok_def MemoryMatchGame_init_def)
next
  case (Some cfg)
  obtain grid pairs bonus where cfg: "cfg = (grid, pairs, bonus)" by (cases cfg)
  show ?thesis
    using Some cfg assms
    by (simp add: mm_start_game_def Let_def MemoryMatchGame_init_def mm_start_level_ok)
qed

lemma mm_trace:
  "map (\<lambda>s. (mm_current_player s, mm_num_players s)) (mm_run mm_session_events mm_session_start)
     = [(0, 2), (0, 2), (0, 2), (1, 2), (1, 2), (1, 2), (1, 2), (0, 2)]"
  by (simp add: mm_session_events_def mm_session_start_def mm_start_game_def MM_LEVELS_def
        MemoryMatchGame_init_def mm_start_level_def mm_flip_card_def mm_check_match_def
        mm_flip_back_def index_of_def after_def after_cancel_def new_tk_def Let_def)

lemma mm_mismatch_fields:
  "mm_flipped mm_mismatch = [1, 2]"
  "index_of (mm_cards mm_mismatch) 1 = Some 1" "index_of (mm_cards mm_mismatch) 2 = Some 2"
  "mm_main_canvas mm_mismatch"
  "index_of (mm_players mm_mismatch) (mm_current_player mm_mismatch) = Some 1"
  "symbol (mm_cards mm_mismatch ! 1) \<noteq> symbol (mm_cards mm_mismatch ! 2)"
  "mm_current_player mm_mismatch = 1" "mm_num_players mm_mismatch = 2"
  by (simp_all add: mm_mismatch_def mm_sample_def MemoryMatchGame_init_def index_of_def)

text \<open>
  Claim C4, amended. In the ordered-click and the discrimination game the index of the
  current player never decreases along any sequence of events, and in every state of a
  session in which it has reached \<open>num_players\<close> no round is live. In the matching game
  the index rotates instead. When \<open>check_match\<close> finds two different cards open in a live
  game of more than one player, the index becomes \<open>(current_player + 1) mod num_players\<close>;
  when it finds two equal cards, or there is one player, the index stays; in every case
  it stays or moves to that next index. \<open>start_level\<close> sets it to 0. Along every sequence
  of events of a matching session of at least one player the index stays within
  \<open>0 \<le> index < num_players\<close>, so it never reaches \<open>num_players\<close>.
\<close>

theorem current_player_moves:
  "sorted (map nr_current_player (nr_run es s))
   \<and> sorted (map cb_current_player (cb_run ces c))
   \<and> (\<forall>s' \<in> set (nr_run es (state_of
          (nr_start_game names lv t numbers now (NumberRushGame_init tk sb)))).
        nr_num_players s' \<le> nr_current_player s' \<longrightarrow> \<not> nr_game_active s')
   \<and> (\<forall>c' \<in> set (cb_run ces (state_of
          (cb_start_game cnames clv ans cnow (ColorBlastGame_init ctk csb)))).
        cb_num_players c' \<le> cb_current_player c' \<longrightarrow> \<not> cb_game_active c')
   \<and> (mm_flipped m = [i1, i2] \<and> index_of (mm_cards m) i1 = Some k1
        \<and> index_of (mm_cards m) i2 = Some k2 \<and> mm_main_canvas m
        \<and> index_of (mm_players m) (mm_current_player m) = Some k \<longrightarrow>
        mm_current_player (state_of (mm_check_match m)) =
          (if symbol (mm_cards m ! k1) = symbol (mm_cards m ! k2) then mm_current_player m
           else if 1 < mm_num_players m then (mm_current_player m + 1) mod mm_num_players m
           else mm_current_player m))
   \<and> (mm_current_player (state_of (mm_check_match m)) = mm_current_player m
        \<or> mm_current_player (state_of (mm_check_match m))
            = (mm_current_player m + 1) mod mm_num_players m)
   \<and> (0 \<le> mm_current_player m \<and> mm_current_player m < mm_num_players m \<longrightarrow>
        0 \<le> mm_current_player (state_of (mm_check_match m))
        \<and> mm_current_player (state_of (mm_check_match m)) < mm_num_players m)
   \<and> mm_current_player (state_of (mm_start_level symbols m)) = 0
   \<and> (mnames \<noteq> [] \<longrightarrow>
        (\<forall>m' \<in> set (mm_run mes (state_of
            (mm_start_game mnames mlv msymbols (MemoryMatchGame_init mtk msb)))).
           0 \<le> mm_current_player m' \<and> mm_current_player m' < mm_num_players m'))"
proof -
  have nr: "nr_num_players s' \<le> nr_current_player s' \<longrightarrow> \<not> nr_game_active s'"
    if "s' \<in> set (nr_run es (state_of
          (nr_start_game names lv t numbers now (NumberRushGame_init tk sb))))" for s'
    using nr_run_ok [OF nr_start_game_ok that] by (auto simp: nr_session_ok_def)
  have cb: "cb_num_players c' \<le> cb_current_player c' \<longrightarrow> \<not> cb_game_active c'"
    if "c' \<in> set (cb_run ces (state_of
          (cb_start_game cnames clv ans cnow (ColorBlastGame_init ctk csb))))" for c'
    using cb_run_ok [OF cb_start_game_ok that] by (auto simp: cb_session_ok_def)
  have mm: "0 \<le> mm_current_player m' \<and> mm_current_player m' < mm_num_players m'"
    if "mnames \<noteq> []" and "m' \<in> set (mm_run mes (state_of
            (mm_start_game mnames mlv msymbols (MemoryMatchGame_init mtk msb))))" for m'
    using mm_run_ok [OF mm_start_game_ok [OF that(1)] that(2)] by (simp add: mm_turn_ok_def)
  have rule: "mm_current_player (state_of (mm_check_match m)) =
          (if symbol (mm_cards m ! k1) = symbol (mm_cards m ! k2) then mm_current_player m
           else if 1 < mm_num_players m then (mm_current_player m + 1) mod mm_num_players m
           else mm_current_player m)"
    if "mm_flipped m = [i1, i2] \<and> index_of (mm_cards m) i1 = Some k1
        \<and> index_of (mm_cards m) i2 = Some k2 \<and> mm_main_canvas m
        \<and> index_of (mm_players m) (mm_current_player m) = Some k"
    using that by (intro mm_check_match_turn) blast+
  from nr cb mm rule show ?thesis
    using nr_run_sorted cb_run_sorted mm_check_match_player mm_start_level_player
      mm_check_match_stay_or_next
    by blast
qed

theorem current_player_moves_witness:
  "map (\<lambda>s. (nr_current_player s, nr_num_players s, nr_game_active s))
     (nr_run nr_session_events nr_session_start) = replicate 15 (0, 1, True) @ [(1, 1, False)]
   \<and> sorted (map nr_current_player (nr_run nr_session_events nr_session_start))
   \<and> list_all (\<lambda>s'. nr_num_players s' \<le> nr_current_player s' \<longrightarrow> \<not> nr_game_active s')
        (nr_run nr_session_events nr_session_start)
   \<and> map (\<lambda>s. (cb_current_player s, cb_num_players s, cb_game_active s))
     (cb_run cb_session_events cb_session_start) = replicate 25 (0, 1, True) @ [(1, 1, False)]
   \<and> sorted (map cb_current_player (cb_run cb_session_events cb_session_start))
   \<and> list_all (\<lambda>c'. cb_num_players c' \<le> cb_current_player c' \<longrightarrow> \<not> cb_game_active c')
        (cb_run cb_session_events cb_session_start)
   \<and> 0 \<le> mm_current_player mm_mismatch
   \<and> mm_current_player mm_mismatch < mm_num_players mm_mismatch
   \<and> 0 \<le> mm_current_player (state_of (mm_check_match mm_mismatch))
   \<and> mm_current_player (state_of (mm_check_match mm_mismatch)) < mm_num_players mm_mismatch
   \<and> mm_flipped mm_mismatch = [1, 2]
   \<and> symbol (mm_cards mm_mismatch ! 1) \<noteq> symbol (mm_cards mm_mismatch ! 2)
   \<and> mm_current_player (state_of (mm_check_match mm_mismatch))
        = (mm_current_player mm_mismatch + 1) mod mm_num_players mm_mismatch
   \<and> [''Ada'', ''Bob''] \<noteq> []
   \<and> map (\<lambda>s. (mm_current_player s, mm_num_players s))
        (mm_run mm_session_events mm_session_start)
        = [(0, 2), (0, 2), (0, 2), (1, 2), (1, 2), (1, 2), (1, 2), (0, 2)]
   \<and> list_all (\<lambda>m'. 0 \<le> mm_current_player m' \<and> mm_current_player m' < mm_num_players m')
        (mm_run mm_session_events mm_session_start)"
proof -
  have m: "0 \<le> mm_current_player mm_mismatch"
      "mm_current_player mm_mismatch < mm_num_players mm_mismatch"
    by (simp_all add: mm_mismatch_fields)
  have ne: "[''Ada'', ''Bob''] \<noteq> []" by simp
  note inst = current_player_moves [where es = nr_session_events and s = nr_session_start
      and ces = cb_session_events and c = cb_session_start
      and names = "[''Ada'']" and lv = 1 and t = 100
      and numbers = "[3, 1, 2, 5, 4, 8, 7, 6, 10, 9, 15, 14, 13, 12, 11]"
      and now = "''2024-01-01 10:00''" and tk = new_tk and sb = fresh_manager
      and cnames = "[''Ada'']" and clv = 5 and ans = 2 and cnow = "''2024-01-01 10:00''"
      and ctk = new_tk and csb = fresh_manager and m = mm_mismatch
      and ?i1.0 = 1 and ?i2.0 = 2 and ?k1.0 = 1 and ?k2.0 = 2 and k = 1
      and mes = mm_session_events and mnames = "[''Ada'', ''Bob'']" and mlv = 1
      and msymbols = "[''a'', ''b'', ''c'', ''d'', ''e'', ''f'', ''g'', ''h'',
                       ''a'', ''b'', ''c'', ''d'', ''e'', ''f'', ''g'', ''h'']"
      and mtk = new_tk and msb = fresh_manager,
      folded nr_session_start_def cb_session_start_def mm_session_start_def]
  from inst mm_mismatch_fields have rot:
    "mm_current_player (state_of (mm_check_match mm_mismatch))
        = (mm_current_player mm_mismatch + 1) mod mm_num_players mm_mismatch"
    by simp
  from inst ne have run:
    "list_all (\<lambda>m'. 0 \<le> mm_current_player m' \<and> mm_current_player m' < mm_num_players m')
        (mm_run mm_session_events mm_session_start)"
    unfolding list_all_iff by blast
  from inst m have rest:
    "sorted (map nr_current_player (nr_run nr_session_events nr_session_start))"
    "list_all (\<lambda>s'. nr_num_players s' \<le> nr_current_player s' \<longrightarrow> \<not> nr_game_active s')
        (nr_run nr_session_events nr_session_start)"
    "sorted (map cb_current_player (cb_run cb_session_events cb_session_start))"
    "list_all (\<lambda>c'. cb_num_players c' \<le> cb_current_player c' \<longrightarrow> \<not> cb_game_active c')
        (cb_run cb_session_events cb_session_start)"
    "0 \<le> mm_current_player (state_of (mm_check_match mm_mismatch))"
    "mm_current_player (state_of (mm_check_match mm_mismatch)) < mm_num_players mm_mismatch"
    unfolding list_all_iff by blast+
  from rest rot run m ne nr_trace cb_trace mm_trace mm_mismatch_fields(1,6) show ?thesis
    by blast
qed

end
